theory Spec2Isabelle
  imports Main "HOL-Library.Finite_Map" "HOL-Library.Sublist" "HOL-Library.Word"
begin

section \<open>Python strings\<close>

text \<open>
  A Python \<^verbatim>\<open>str\<close> is a sequence of Unicode code points. The program handles Tamil
  text, so a code point is a natural number here and not an 8-bit \<^typ>\<open>char\<close>.
  \<open>py\<close> turns an ASCII literal of the source into its code points.
\<close>

type_synonym pystr = "nat list"

definition py :: "string \<Rightarrow> pystr" where
  "py s = map of_char s"

section \<open>Color helpers\<close>

text \<open>
  \<^verbatim>\<open>color_from_name(name, fallback)\<close>, lines 45-61: a dict literal and
  \<^verbatim>\<open>table.get(name, fallback)\<close>. The keys of the literal are pairwise different, so
  the association list read from the front is the dict.
\<close>

definition color_table :: "(pystr \<times> pystr) list" where
  "color_table =
    [(py ''dark_blue'', py ''#0f172a''),
     (py ''navy'', py ''#0f172a''),
     (py ''blue'', py ''#1d4ed8''),
     (py ''sky_blue'', py ''#0ea5e9''),
     (py ''dark_green'', py ''#166534''),
     (py ''green'', py ''#16a34a''),
     (py ''red'', py ''#b91c1c''),
     (py ''maroon'', py ''#7f1d1d''),
     (py ''orange'', py ''#ea580c''),
     (py ''gold'', py ''#facc15''),
     (py ''black'', py ''#111827''),
     (py ''dark_gray'', py ''#374151''),
     (py ''white'', py ''#f9fafb'')]"

definition color_from_name :: "pystr \<Rightarrow> pystr \<Rightarrow> pystr" where
  "color_from_name name fallback =
    (case map_of color_table name of Some c \<Rightarrow> c | None \<Rightarrow> fallback)"

text \<open>\<^verbatim>\<open>theme_colors(theme)\<close>, lines 64-72: three tests in order, then the default.\<close>

definition theme_colors :: "pystr \<Rightarrow> pystr \<times> pystr \<times> pystr" where
  "theme_colors theme =
    (if theme = py ''green_gold'' then (py ''#e8f7eb'', py ''#fef6d8'', py ''#14532d'')
     else if theme = py ''red_yellow'' then (py ''#fee2e2'', py ''#fef9c3'', py ''#7f1d1d'')
     else if theme = py ''yellow_blue'' then (py ''#fef9c3'', py ''#dbeafe'', py ''#1e3a8a'')
     else (py ''#e0f2fe'', py ''#ffedd5'', py ''#0f172a''))"

section \<open>The prompt\<close>

text \<open>
  \<^verbatim>\<open>build_style_block(style_mode)\<close>, lines 79-105: the three blocks of instructions,
  with the characters the source file holds, and the choice between them.
\<close>

definition style_conversation :: pystr where
  "style_conversation =
     [10] @
     py ''STYLE:'' @ [10] @
     py ''- body_paragraph_ta should look like a SHORT conversation between'' @ [10] @
     py ''  '' @
     [34, 1088, 1086, 9569, 1088, 1086, 9563, 1088, 1086, 1071, 1088, 1086, 9488, 1088] @
     [1086, 1061, 1088, 1087, 1053, 1088, 1086, 1061, 1088, 1087, 1048, 1088, 1086, 1087] @
     [1088, 1086, 9563, 1088, 1086, 9474, 1088, 1086, 9617, 1088, 1087, 1053, 34] @ py '' '' @
     [1088, 1086, 1086, 1088, 1086, 9618, 1088, 1087, 1053, 1088, 1086, 9618, 1088, 1087] @
     [1041, 1088, 1086, 1086, 1088, 1087, 1053] @ py '' '' @
     [34, 1088, 1086, 1046, 1088, 1086, 9619, 1088, 1087, 1051, 1088, 1086, 1066, 1088] @
     [1086, 1061, 1088, 1086, 9617, 1088, 1087, 1053, 34] @ py ''.'' @ [10] @
     py ''- Use speaker labels like:'' @ [10] @
     py ''  '' @
     [34, 1088, 1086, 9569, 1088, 1086, 9563, 1088, 1086, 1071, 1088, 1086, 9488, 1088] @
     [1086, 1061, 1088, 1087, 1053, 1088, 1086, 1061, 1088, 1087, 1048, 1088, 1086, 1087] @
     [1088, 1086, 9563, 1088, 1086, 9474, 1088, 1086, 9617, 1088, 1087, 1053] @ py '':'' @
     [34] @ py '' and '' @
     [34, 1088, 1086, 1046, 1088, 1086, 9619, 1088, 1087, 1051, 1088, 1086, 1066, 1088] @
     [1086, 1061, 1088, 1086, 9617, 1088, 1087, 1053] @ py '':'' @ [34] @ py ''.'' @ [10] @
     py ''- 5'' @ [1090, 1040, 1059] @
     py ''7 lines max, casual spoken Tamil, but still neat.'' @ [10] @
     py ''- bullet_points_ta should then summarize 3 key benefits in simple one-liners.'' @
     [10]"

definition style_fact_based :: pystr where
  "style_fact_based =
     [10] @
     py ''STYLE:'' @ [10] @
     py ''- body_paragraph_ta should highlight 2'' @ [1090, 1040, 1059] @
     py ''3 simple facts or scenarios'' @ [10] @
     py ''  ('' @
     [1088, 1086, 1049, 1088, 1086, 1076, 1088, 1086, 9563, 1088, 1086, 9617, 1088, 1086] @
     [1075, 1088, 1086, 1086, 1088, 1087, 1053] @ py '': hospital bills, '' @
     [1088, 1086, 1054, 1088, 1086, 1076, 1088, 1086, 9488, 1088, 1086, 9617, 1088, 1087] @
     [1053, 1088, 1086, 1082, 1088, 1086, 9563, 1088, 1086, 9617, 1088, 1086, 9563, 1088] @
     [1086, 1076] @ py '' '' @
     [1088, 1086, 9569, 1088, 1086, 9488, 1088, 1086, 1082, 1088, 1086, 1076, 1088, 1087] @
     [1053, 1088, 1086, 1076, 1088, 1087, 1041] @ py '', children'' @ [39] @
     py ''s future).'' @ [10] @
     py ''- Use a slightly serious, informative tone.'' @ [10] @
     py ''- bullet_points_ta should look like 3 crisp benefits/facts.'' @ [10]"

definition style_standard :: pystr where
  "style_standard =
     [10] @
     py ''STYLE:'' @ [10] @
     py ''- Simple marketing style, friendly and emotional.'' @ [10] @
     py ''- body_paragraph_ta: directly talk to the reader ('' @
     [34, 1088, 1086, 1080, 1088, 1087, 1040, 1088, 1086, 1065, 1088, 1087, 1053, 1088] @
     [1086, 1061, 1088, 1086, 9474, 1088, 1087, 1053, 34] @ py '').'' @ [10] @
     py ''- bullet_points_ta: 3 small benefit lines (safety, medical expenses, t'' @
     py ''ax, etc.).'' @ [10]"


definition build_style_block :: "pystr \<Rightarrow> pystr" where
  "build_style_block style_mode =
    (if style_mode = py ''Conversation'' then style_conversation
     else if style_mode = py ''Fact-based awareness'' then style_fact_based
     else style_standard)"

text \<open>
  Lines 36-38 and 119-175: the prompt is an f-string. Its literal text is cut by four
  fields: the poster's width and height, the footer's height (integers, formatted in
  decimal) and the style block.
\<close>

definition POSTER_WIDTH :: nat where
  "POSTER_WIDTH = 1080"

definition POSTER_HEIGHT :: nat where
  "POSTER_HEIGHT = 1080"

definition FOOTER_HEIGHT :: nat where
  "FOOTER_HEIGHT = 210"

function str_nat :: "nat \<Rightarrow> pystr" where
  "str_nat n = (if n < 10 then [48 + n] else str_nat (n div 10) @ [48 + n mod 10])"
  by pat_completeness auto
termination
  by (relation "measure id") auto

definition prompt_part1 :: pystr where
  "prompt_part1 =
     [10] @
     [1088, 1086, 1080, 1088, 1087, 1040] @ py '' '' @
     [1088, 1086, 1058, 1088, 1086, 9617, 1088, 1087, 1041] @ py '' '' @
     [1088, 1086, 1045, 1088, 1086, 1081, 1088, 1087, 1041, 1088, 1086, 1082, 1088, 1086] @
     [9569, 1088, 1086, 1086, 1088, 1087, 1053] @ py '' '' @
     [1088, 1086, 9569, 1088, 1086, 9563, 1088, 1086, 1087, 1088, 1087, 1053, 1088, 1086] @
     [1080, 1088, 1087, 1053, 1088, 1086, 1076] @ py '' '' @
     [1088, 1086, 1076, 1088, 1086, 1086, 1088, 1086, 9488, 1088, 1086, 9508, 1088, 1087] @
     [1053] @ py '' '' @
     [1088, 1086, 1047, 1088, 1086, 1081, 1088, 1087, 1053, 1088, 1086, 9558, 1088, 1087] @
     [1042, 1088, 1086, 9617, 1088, 1086, 1081, 1088, 1087, 1053, 1088, 1086, 9557, 1088] @
     [1087, 1053] @ py '' '' @
     [1088, 1086, 1086, 1088, 1086, 9563, 1088, 1086, 9617, 1088, 1087, 1053, 1088, 1086] @
     [1061, 1088, 1087, 1053, 1088, 1086, 1061, 1088, 1087, 1046, 1088, 1086, 1071, 1088] @
     [1087, 1053, 1088, 1086, 1071, 1088, 1086, 9488, 1088, 1086, 1065, 1088, 1087, 1053] @
     py '' '' @ [1088, 1086, 1061, 1088, 1086, 9563, 1088, 1086, 1082, 1088, 1086, 9488] @
     py '' '' @
     [1088, 1086, 9617, 1088, 1087, 1048, 1088, 1086, 1071, 1088, 1087, 1053, 1088, 1086] @
     [1071, 1088, 1086, 9617, 1088, 1087, 1053] @ py ''.'' @ [10] @
     [10] @
     [1088, 1086, 1047, 1088, 1086, 1080, 1088, 1087, 1053, 1088, 1086, 1076] @ py '' '' @
     [1088, 1086, 1082, 1088, 1087, 1051, 1088, 1086, 9557, 1088, 1087, 1053, 1088, 1086] @
     [1071, 1088, 1086, 9617, 1088, 1087, 1053] @ py '' '' @
     [1088, 1086, 1071, 1088, 1086, 9488, 1088, 1086, 1066, 1088, 1087, 1048, 1088, 1086] @
     [1081, 1088, 1087, 1053] @ py '' '' @
     [1088, 1086, 1045, 1088, 1086, 9474, 1088, 1086, 9569, 1088, 1087, 1041] @ py '':'' @
     [10] @
     py ''- width: ''"

definition prompt_part2 :: pystr where
  "prompt_part2 =
     py '' px'' @ [10] @
     py ''- height: ''"

definition prompt_part3 :: pystr where
  "prompt_part3 =
     py '' px'' @ [10] @
     py ''- '' @ [1088, 1086, 1086, 1088, 1087, 1047, 1088, 1086, 9619, 1088, 1087, 1047] @
     py '' ~1200 px: '' @
     [1088, 1086, 1076, 1088, 1086, 9619, 1088, 1087, 1048, 1088, 1086, 1082, 1088, 1087] @
     [1053, 1088, 1086, 1082, 1088, 1087, 1041] @ py '', subheadline, main body '' @
     [1088, 1086, 1086, 1088, 1086, 9618, 1088, 1087, 1053, 1088, 1086, 9618, 1088, 1087] @
     [1041, 1088, 1086, 1086, 1088, 1087, 1053] @ py '' bullet points.'' @ [10] @
     py ''- '' @
     [1088, 1086, 1080, 1088, 1086, 1071, 1088, 1087, 1041, 1088, 1086, 9569, 1088, 1086] @
     [9488, 1088, 1086, 9619, 1088, 1087, 1053] @ py '' ~150 px: CTA (call-to-action) line.'' @
     [10] @
     py ''- '' @ [1088, 1086, 1061, 1088, 1087, 1040, 1088, 1086, 9508, 1088, 1087, 1047] @
     py '' ''"

definition prompt_part4 :: pystr where
  "prompt_part4 =
     py '' px: '' @
     [1088, 1086, 1055, 1088, 1086, 1068, 1088, 1087, 1046, 1088, 1086, 1081, 1088, 1087] @
     [1053, 1088, 1086, 1071, 1088, 1087, 1053] @ py '' '' @
     [1088, 1086, 1082, 1088, 1087, 1041, 1088, 1086, 1061, 1088, 1087, 1048, 1088, 1086] @
     [1082, 1088, 1087, 1053, 1088, 1086, 1082, 1088, 1086, 1071, 1088, 1086, 1086, 1088] @
     [1087, 1053] @ py '', '' @
     [1088, 1086, 1082, 1088, 1087, 1046, 1088, 1086, 1087, 1088, 1086, 9617, 1088, 1087] @
     [1053] @ py '', role, phone number footer '' @
     [1088, 1086, 1061, 1088, 1087, 1053, 1088, 1086, 1061, 1088, 1087, 1041] @
     py '' RESERVED.'' @ [10] @
     [1088, 1086, 1045, 1088, 1086, 1076, 1088, 1086, 1081, 1088, 1086, 9563, 1088, 1086] @
     [9619, 1088, 1087, 1053] @ py '' '' @
     [1088, 1086, 1071, 1088, 1087, 1046, 1088, 1086, 1061, 1088, 1087, 1053, 1088, 1086] @
     [9557, 1088, 1087, 1053, 1088, 1086, 1071, 1088, 1087, 1053] @ py '' '' @
     [1088, 1086, 1061, 1088, 1087, 1041, 1088, 1086, 9618, 1088, 1087, 1041, 1088, 1086] @
     [1061, 1088, 1086, 9488, 1088, 1086, 1087] @ py '', readable '' @
     [1088, 1086, 1086, 1088, 1086, 9618, 1088, 1087, 1053, 1088, 1086, 9618, 1088, 1087] @
     [1041, 1088, 1086, 1086, 1088, 1087, 1053] @ py '' '' @
     [1088, 1086, 1061, 1088, 1087, 1053, 1088, 1086, 9617, 1088, 1086, 9569, 1088, 1087] @
     [1041, 1088, 1086, 1071, 1088, 1087, 1053] @ py '' '' @
     [1088, 1086, 1047, 1088, 1086, 9619, 1088, 1087, 1053, 1088, 1086, 9619, 1088, 1086] @
     [9563, 1088, 1086, 1076] @ py '' '' @
     [1088, 1086, 1086, 1088, 1086, 9563, 1088, 1086, 1076, 1088, 1086, 9488, 1088, 1086] @
     [9617, 1088, 1086, 9488] @ py '' '' @
     [1088, 1086, 1047, 1088, 1086, 9617, 1088, 1087, 1041, 1088, 1086, 1061, 1088, 1087] @
     [1053, 1088, 1086, 1061, 1088, 1086, 1075, 1088, 1087, 1041, 1088, 1086, 1086, 1088] @
     [1087, 1053] @ py ''.'' @ [10] @
     [10] @
     [1088, 1086, 1086, 1088, 1087, 1050, 1088, 1086, 9508, 1088, 1086, 9488] @ py '':'' @
     [10] @
     py ''- '' @
     [1088, 1086, 1047, 1088, 1086, 1087, 1088, 1086, 9619, 1088, 1087, 1053, 1088, 1086] @
     [1082, 1088, 1086, 9563, 1088, 1086, 1081] @ py '' '' @
     [1088, 1086, 1082, 1088, 1087, 1047, 1088, 1086, 1066, 1088, 1087, 1053, 1088, 1086] @
     [1066, 1088, 1087, 1041] @ py '' '' @
     [1088, 1086, 1076, 1088, 1086, 1086, 1088, 1086, 9488, 1088, 1086, 9508, 1088, 1086] @
     [9488, 1088, 1086, 9619, 1088, 1087, 1053] @ py '' ('' @
     [1088, 1086, 1076, 1088, 1086, 1086, 1088, 1086, 9488, 1088, 1086, 9508, 1088, 1087] @
     [1053, 1088, 1086, 1080, 1088, 1086, 9563, 1088, 1086, 1071, 1088, 1087, 1053, 1088] @
     [1086, 1071, 1088, 1086, 9488, 1088, 1086, 9619, 1088, 1087, 1053] @ py '' '' @
     [1088, 1086, 1047, 1088, 1086, 1081, 1088, 1087, 1053, 1088, 1086, 9558, 1088, 1087] @
     [1042, 1088, 1086, 9617, 1088, 1086, 1081, 1088, 1087, 1053, 1088, 1086, 9557, 1088] @
     [1087, 1053] @ py '' '' @
     [1088, 1086, 1055, 1088, 1086, 1068, 1088, 1087, 1046, 1088, 1086, 1081, 1088, 1087] @
     [1053, 1088, 1086, 1071, 1088, 1087, 1053] @ py '' '' @
     [1088, 1086, 1082, 1088, 1087, 1047, 1088, 1086, 1066, 1088, 1087, 1041, 1088, 1086] @
     [9618] @ py '' '' @
     [1088, 1086, 1086, 1088, 1086, 9563, 1088, 1086, 1076, 1088, 1086, 9488, 1088, 1086] @
     [9617, 1088, 1086, 9488] @ py '').'' @ [10] @
     py ''- '' @
     [1088, 1086, 1061, 1088, 1086, 1071, 1088, 1086, 9488, 1088, 1086, 1081, 1088, 1086] @
     [1086, 1088, 1086, 9563, 1088, 1086, 1081] @ py '' / '' @
     [1088, 1086, 9619, 1088, 1086, 9488, 1088, 1086, 1071, 1088, 1086, 9617, 1088, 1086] @
     [9617, 1088, 1086, 9488] @ py '' '' @
     [1088, 1086, 1076, 1088, 1086, 1086, 1088, 1086, 9488, 1088, 1086, 9508, 1088, 1087] @
     [1053] @ py '' '' @
     [1088, 1086, 9569, 1088, 1087, 1047, 1088, 1086, 1075, 1088, 1087, 1053, 1088, 1086] @
     [1071, 1088, 1086, 9563, 1088, 1086, 1086, 1088, 1087, 1053] @ py ''.'' @ [10] @
     py ''- English words MIX '' @
     [1088, 1086, 1082, 1088, 1086, 1075, 1088, 1087, 1053, 1088, 1086, 1075, 1088, 1086] @
     [9563, 1088, 1086, 1076, 1088, 1087, 1047] @ py '' (numbers ok).'' @ [10] @
     [10]"

definition prompt_part5 :: pystr where
  "prompt_part5 =
     [10] @
     [10] @
     py ''TEXT LIMITS ('' @ [1088, 1086, 1086, 1088, 1086, 9488, 1088, 1086, 1061] @ py '' '' @
     [1088, 1086, 1045, 1088, 1086, 9569, 1088, 1086, 1066, 1088, 1086, 9488, 1088, 1086] @
     [1087, 1088, 1086, 1086, 1088, 1087, 1053] @ py '' '' @
     [1088, 1086, 1082, 1088, 1086, 9488, 1088, 1086, 1081, 1088, 1087, 1053, 1088, 1086] @
     [1082, 1088, 1086, 9618, 1088, 1087, 1053, 1088, 1086, 9618, 1088, 1087, 1041] @
     py ''):'' @ [10] @
     py ''- headline_ta: '' @
     [1088, 1086, 1045, 1088, 1086, 1076, 1088, 1086, 9488, 1088, 1086, 1061, 1088, 1086] @
     [1082, 1088, 1086, 1071, 1088, 1087, 1053, 1088, 1086, 1066, 1088, 1086, 1086, 1088] @
     [1087, 1053] @ py '' 22'' @ [1090, 1040, 1059] @ py ''25 '' @
     [1088, 1086, 1076, 1088, 1086, 1086, 1088, 1086, 9488, 1088, 1086, 9508, 1088, 1087] @
     [1053] @ py '' '' @
     [1088, 1086, 1054, 1088, 1086, 9508, 1088, 1087, 1041, 1088, 1086, 1076, 1088, 1087] @
     [1053, 1088, 1086, 1076, 1088, 1087, 1041, 1088, 1086, 1061, 1088, 1086, 9474, 1088] @
     [1087, 1053] @ py '' '' @
     [1088, 1086, 1045, 1088, 1086, 9474, 1088, 1086, 9569, 1088, 1087, 1041, 1088, 1086] @
     [1061, 1088, 1087, 1053, 1088, 1086, 1061, 1088, 1087, 1041] @ py ''. 1'' @
     [1090, 1040, 1059] @ py ''2 '' @ [1088, 1086, 9569, 1088, 1086, 9617, 1088, 1086, 9488] @
     py '' '' @ [1088, 1086, 9571, 1088, 1087, 1041, 1088, 1086, 1061, 1088, 1087, 1053] @
     py '' '' @
     [1088, 1086, 1086, 1088, 1086, 1071, 1088, 1087, 1053, 1088, 1086, 1071, 1088, 1087] @
     [1041, 1088, 1086, 1086, 1088, 1087, 1053] @ py ''.'' @ [10] @
     py ''- subheadline_ta: max 70'' @ [1090, 1040, 1059] @ py ''80 '' @
     [1088, 1086, 1054, 1088, 1086, 9508, 1088, 1087, 1041, 1088, 1086, 1076, 1088, 1087] @
     [1053, 1088, 1086, 1076, 1088, 1087, 1041, 1088, 1086, 1061, 1088, 1086, 9474, 1088] @
     [1087, 1053] @ py ''.'' @ [10] @
     py ''- body_paragraph_ta: max 220'' @ [1090, 1040, 1059] @ py ''250 '' @
     [1088, 1086, 1054, 1088, 1086, 9508, 1088, 1087, 1041, 1088, 1086, 1076, 1088, 1087] @
     [1053, 1088, 1086, 1076, 1088, 1087, 1041, 1088, 1086, 1061, 1088, 1086, 9474, 1088] @
     [1087, 1053] @ py '' (3'' @ [1090, 1040, 1059] @ py ''4 '' @
     [1088, 1086, 1066, 1088, 1086, 9488, 1088, 1086, 1081, 1088, 1087, 1053, 1088, 1086] @
     [1081] @ py '' '' @
     [1088, 1086, 9569, 1088, 1086, 9563, 1088, 1086, 1061, 1088, 1087, 1053, 1088, 1086] @
     [1061, 1088, 1086, 9488, 1088, 1086, 1087, 1088, 1086, 1065, 1088, 1087, 1053, 1088] @
     [1086, 1061, 1088, 1086, 9474, 1088, 1087, 1053] @ py '' '' @
     [1088, 1086, 1045, 1088, 1086, 9619, 1088, 1087, 1053, 1088, 1086, 9619, 1088, 1086] @
     [1076, 1088, 1087, 1041] @ py '' 5'' @ [1090, 1040, 1059] @ py ''7 '' @
     [1088, 1086, 1066, 1088, 1086, 9488, 1088, 1086, 1081, 1088, 1087, 1053, 1088, 1086] @
     [1081] @ py '' conversation lines).'' @ [10] @
     py ''- bullet_points_ta: 3 bullets '' @
     [1088, 1086, 1086, 1088, 1086, 1071, 1088, 1087, 1053, 1088, 1086, 1071, 1088, 1087] @
     [1041, 1088, 1086, 1086, 1088, 1087, 1053] @ py ''. '' @
     [1088, 1086, 1058, 1088, 1086, 9569, 1088, 1087, 1053, 1088, 1086, 9569, 1088, 1087] @
     [1050, 1088, 1086, 9617, 1088, 1087, 1041] @ py '' bullet '' @
     [1088, 1086, 1058, 1088, 1086, 9617, 1088, 1087, 1041] @ py '' '' @
     [1088, 1086, 9569, 1088, 1086, 9617, 1088, 1086, 9488] @ py '' (max 45 '' @
     [1088, 1086, 1054, 1088, 1086, 9508, 1088, 1087, 1041, 1088, 1086, 1076, 1088, 1087] @
     [1053, 1088, 1086, 1076, 1088, 1087, 1041, 1088, 1086, 1061, 1088, 1086, 9474, 1088] @
     [1087, 1053] @ py '').'' @ [10] @
     py ''- cta_line_ta: short CTA, max 60 '' @
     [1088, 1086, 1054, 1088, 1086, 9508, 1088, 1087, 1041, 1088, 1086, 1076, 1088, 1087] @
     [1053, 1088, 1086, 1076, 1088, 1087, 1041, 1088, 1086, 1061, 1088, 1086, 9474, 1088] @
     [1087, 1053] @ py ''.'' @ [10] @
     [10] @
     py ''CONTENT STRUCTURE ('' @
     [1088, 1086, 1076, 1088, 1086, 1086, 1088, 1086, 9488, 1088, 1086, 9508, 1088, 1086] @
     [9488, 1088, 1086, 9619, 1088, 1087, 1053] @ py '' '' @
     [1088, 1086, 1080, 1088, 1086, 9488, 1088, 1086, 9617, 1088, 1086, 1082, 1088, 1087] @
     [1053, 1088, 1086, 1082] @ py ''):'' @ [10] @
     [10] @
     py ''1) headline_ta'' @ [10] @
     py ''2) subheadline_ta'' @ [10] @
     py ''3) body_paragraph_ta'' @ [10] @
     py ''4) bullet_points_ta  (3 strings)'' @ [10] @
     py ''5) cta_line_ta'' @ [10] @
     py ''6) color_theme :  '' @ [34] @ py ''blue_orange'' @ [34] @ py '' | '' @ [34] @
     py ''green_gold'' @ [34] @ py '' | '' @ [34] @ py ''red_yellow'' @ [34] @ py '' | '' @
     [34] @ py ''yellow_blue'' @ [34] @ [10] @
     py ''7) text_colors:'' @ [10] @
     py ''   {'' @ [10] @
     py ''     '' @ [34] @ py ''headline'' @ [34] @ py '': '' @ [34] @
     py ''dark_blue | navy | red | maroon | dark_green'' @ [34] @ py '','' @ [10] @
     py ''     '' @ [34] @ py ''body'' @ [34] @ py '': '' @ [34] @
     py ''black | dark_gray | dark_blue'' @ [34] @ py '','' @ [10] @
     py ''     '' @ [34] @ py ''cta'' @ [34] @ py '': '' @ [34] @
     py ''red | dark_blue | green | orange'' @ [34] @ [10] @
     py ''   }'' @ [10] @
     [10] @
     py ''STRICTLY '' @
     [1088, 1086, 1047, 1088, 1086, 1080, 1088, 1087, 1053, 1088, 1086, 1076] @
     py '' JSON format '' @
     [1088, 1086, 1086, 1088, 1086, 1071, 1088, 1087, 1053, 1088, 1086, 1071, 1088, 1087] @
     [1041, 1088, 1086, 1086, 1088, 1087, 1053] @ py '' return '' @
     [1088, 1086, 1082, 1088, 1086, 1075, 1088, 1087, 1053, 1088, 1086, 1075, 1088, 1087] @
     [1041] @ [10] @
     py ''(extra text, explanation, markdown '' @
     [1088, 1086, 1054, 1088, 1086, 1076, 1088, 1087, 1041, 1088, 1086, 9569, 1088, 1087] @
     [1041, 1088, 1086, 1086, 1088, 1087, 1053] @ py '' '' @
     [1088, 1086, 1047, 1088, 1086, 9619, 1088, 1087, 1053, 1088, 1086, 9619, 1088, 1086] @
     [9563, 1088, 1086, 1086, 1088, 1086, 9619, 1088, 1087, 1053] @ py ''):'' @ [10] @
     [10] @
     py ''{'' @ [10] @
     py ''  '' @ [34] @ py ''headline_ta'' @ [34] @ py '': '' @ [34] @ py ''...'' @ [34] @
     py '','' @ [10] @
     py ''  '' @ [34] @ py ''subheadline_ta'' @ [34] @ py '': '' @ [34] @ py ''...'' @ [34] @
     py '','' @ [10] @
     py ''  '' @ [34] @ py ''body_paragraph_ta'' @ [34] @ py '': '' @ [34] @ py ''...'' @
     [34] @ py '','' @ [10] @
     py ''  '' @ [34] @ py ''bullet_points_ta'' @ [34] @ py '': ['' @ [34] @ py ''...'' @
     [34] @ py '', '' @ [34] @ py ''...'' @ [34] @ py '', '' @ [34] @ py ''...'' @ [34] @
     py ''],'' @ [10] @
     py ''  '' @ [34] @ py ''cta_line_ta'' @ [34] @ py '': '' @ [34] @ py ''...'' @ [34] @
     py '','' @ [10] @
     py ''  '' @ [34] @ py ''color_theme'' @ [34] @ py '': '' @ [34] @ py ''blue_orange'' @
     [34] @ py '','' @ [10] @
     py ''  '' @ [34] @ py ''text_colors'' @ [34] @ py '': {'' @ [10] @
     py ''    '' @ [34] @ py ''headline'' @ [34] @ py '': '' @ [34] @ py ''dark_blue'' @ [34] @
     py '','' @ [10] @
     py ''    '' @ [34] @ py ''body'' @ [34] @ py '': '' @ [34] @ py ''black'' @ [34] @
     py '','' @ [10] @
     py ''    '' @ [34] @ py ''cta'' @ [34] @ py '': '' @ [34] @ py ''red'' @ [34] @ [10] @
     py ''  }'' @ [10] @
     py ''}'' @ [10]"

definition prompt_of_style_block :: "pystr \<Rightarrow> pystr" where
  "prompt_of_style_block style_block =
     prompt_part1 @ str_nat POSTER_WIDTH @ prompt_part2 @ str_nat POSTER_HEIGHT @ prompt_part3 @
     str_nat FOOTER_HEIGHT @ prompt_part4 @ style_block @ prompt_part5"

definition build_prompt :: "pystr \<Rightarrow> pystr" where
  "build_prompt style_mode = prompt_of_style_block (build_style_block style_mode)"

text \<open>
  The number of places of a text at which a pattern occurs (for a pattern that is not
  empty, what \<^verbatim>\<open>len(re.findall("(?=" + re.escape(p) + ")", t))\<close> counts).
\<close>

fun occurrences :: "pystr \<Rightarrow> pystr \<Rightarrow> nat" where
  "occurrences p [] = (if p = [] then 1 else 0)"
| "occurrences p (c # cs) = (if prefix p (c # cs) then 1 else 0) + occurrences p cs"

section \<open>The photo as a data URL\<close>

text \<open>
  Lines 479-480: \<^verbatim>\<open>base64.b64encode(agent_img_bytes).decode("ascii")\<close> after the fixed
  prefix. \<open>b64encode\<close> is the standard encoding of the library (RFC 4648, with
  padding): three bytes give four characters of the alphabet, each for six bits; one or
  two last bytes give two or three characters and the padding \<open>=\<close> (61). The encoding
  is ASCII, so decoding it to a str gives the same code points.
\<close>

definition b64_alphabet :: pystr where
  "b64_alphabet = py ''ABCDEFGHIJKLMNOPQRSTUVWXYZabcdefghijklmnopqrstuvwxyz0123456789+/''"

text \<open>
  The character for six bits \<open>i\<close>, that is \<open>b64_alphabet ! i\<close>: the capital letters
  from 65, the small letters from 97, the digits from 48, then \<open>+\<close> and \<open>/\<close>.
\<close>

definition b64_char :: "nat \<Rightarrow> nat" where
  "b64_char i =
    (if i < 26 then 65 + i
     else if i < 52 then 97 + (i - 26)
     else if i < 62 then 48 + (i - 52)
     else if i = 62 then 43
     else 47)"

fun b64encode :: "8 word list \<Rightarrow> pystr" where
  "b64encode [] = []"
| "b64encode [a] =
    [b64_char (unat a div 4), b64_char (unat a mod 4 * 16), 61, 61]"
| "b64encode [a, b] =
    [b64_char (unat a div 4), b64_char (unat a mod 4 * 16 + unat b div 16),
     b64_char (unat b mod 16 * 4), 61]"
| "b64encode (a # b # c # rest) =
    [b64_char (unat a div 4), b64_char (unat a mod 4 * 16 + unat b div 16),
     b64_char (unat b mod 16 * 4 + unat c div 64), b64_char (unat c mod 64)] @ b64encode rest"

definition photo_data_url :: "8 word list \<Rightarrow> pystr" where
  "photo_data_url agent_img_bytes = py ''data:image/png;base64,'' @ b64encode agent_img_bytes"

text \<open>
  Reading an encoding back, to say which bytes a text encodes: the six bits of a
  character of the alphabet, and the bytes of the groups of four characters.
\<close>

definition b64_index :: "nat \<Rightarrow> nat option" where
  "b64_index c =
    (if 65 \<le> c \<and> c \<le> 90 then Some (c - 65)
     else if 97 \<le> c \<and> c \<le> 122 then Some (c - 71)
     else if 48 \<le> c \<and> c \<le> 57 then Some (c + 4)
     else if c = 43 then Some 62
     else if c = 47 then Some 63
     else None)"

fun b64decode :: "pystr \<Rightarrow> 8 word list option" where
  "b64decode [] = Some []"
| "b64decode (c0 # c1 # c2 # c3 # rest) =
    (case (b64_index c0, b64_index c1) of
       (Some s0, Some s1) \<Rightarrow>
         if c2 = 61 \<and> c3 = 61 \<and> rest = [] then Some [of_nat (s0 * 4 + s1 div 16)]
         else
           (case b64_index c2 of
              None \<Rightarrow> None
            | Some s2 \<Rightarrow>
                if c3 = 61 \<and> rest = []
                then Some [of_nat (s0 * 4 + s1 div 16), of_nat (s1 mod 16 * 16 + s2 div 4)]
                else
                  (case b64_index c3 of
                     None \<Rightarrow> None
                   | Some s3 \<Rightarrow>
                       map_option
                         (\<lambda>bs. of_nat (s0 * 4 + s1 div 16) # of_nat (s1 mod 16 * 16 + s2 div 4) #
                            of_nat (s2 mod 4 * 64 + s3) # bs)
                         (b64decode rest)))
     | _ \<Rightarrow> None)"
| "b64decode _ = None"

section \<open>Values of the parsed JSON\<close>

text \<open>
  What \<^verbatim>\<open>json.loads\<close> can return: \<^verbatim>\<open>None\<close>, a bool, an int, a float (an IEEE-754
  double, kept as its 64 bits), a str, a list, or a dict whose keys are strs. Dicts are
  finite maps: nothing below depends on the order of the keys.
\<close>

datatype pyval =
    PNone
  | PBool bool
  | PInt int
  | PFloat "64 word"
  | PStr pystr
  | PList "pyval list"
  | PDict "(pystr, pyval) fmap"

text \<open>
  Truth value testing, as \<^verbatim>\<open>or\<close> and \<^verbatim>\<open>if not\<close> use it: \<^verbatim>\<open>None\<close>, \<^verbatim>\<open>False\<close>, zero
  (for a float both \<open>0.0\<close> and \<open>-0.0\<close>: all bits but the sign are zero), and the empty
  str, list and dict are false.
\<close>

fun truthy :: "pyval \<Rightarrow> bool" where
  "truthy PNone = False"
| "truthy (PBool b) = b"
| "truthy (PInt i) = (i \<noteq> 0)"
| "truthy (PFloat w) = (take_bit 63 w \<noteq> 0)"
| "truthy (PStr s) = (s \<noteq> [])"
| "truthy (PList xs) = (xs \<noteq> [])"
| "truthy (PDict d) = (d \<noteq> fmempty)"

definition py_or :: "pyval \<Rightarrow> pyval \<Rightarrow> pyval" where
  "py_or a b = (if truthy a then a else b)"

text \<open>\<^verbatim>\<open>d.get(key, default)\<close>; \<^verbatim>\<open>d.get(key)\<close> is \<open>dict_get d key PNone\<close>.\<close>

definition dict_get :: "(pystr, pyval) fmap \<Rightarrow> pystr \<Rightarrow> pyval \<Rightarrow> pyval" where
  "dict_get d key dflt = (case fmlookup d key of Some v \<Rightarrow> v | None \<Rightarrow> dflt)"

text \<open>
  \<^verbatim>\<open>str(x)\<close>: a str is returned as it is; for every other value \<^verbatim>\<open>str\<close> is the
  built-in \<^verbatim>\<open>repr\<close>, which is the interpreter's and is taken as the parameter \<open>repr\<close>.
\<close>

definition py_str :: "(pyval \<Rightarrow> pystr) \<Rightarrow> pyval \<Rightarrow> pystr" where
  "py_str repr v = (case v of PStr s \<Rightarrow> s | _ \<Rightarrow> repr v)"

section \<open>Exceptions of text generation\<close>

text \<open>
  \<^verbatim>\<open>generate_text\<close> raises \<^verbatim>\<open>ValueError\<close> with one of three messages (lines 203, 227
  and 232); the specification calls them EmptyResponse, NoJsonFound and InvalidJson.
  A \<^verbatim>\<open>.get\<close> on a value that is not a dict raises \<^verbatim>\<open>AttributeError\<close> (its message is
  left out).
\<close>

datatype py_exception = ValueError pystr | AttributeError

definition EmptyResponse :: py_exception where
  "EmptyResponse = ValueError
     (py ''Gemini API did not return any text (possibly blocked / empty). '' @
      py ''Try again or change the style.'')"

definition NoJsonFound :: "pystr \<Rightarrow> py_exception" where
  "NoJsonFound raw = ValueError (py ''Could not find JSON in Gemini output:'' @ [10] @ raw)"

definition InvalidJson :: "pystr \<Rightarrow> pystr \<Rightarrow> py_exception" where
  "InvalidJson e json_text = ValueError
     (py ''Failed to parse JSON from Gemini: '' @ e @ [10] @ py ''Extracted:'' @ [10] @ json_text)"

section \<open>The raw text\<close>

text \<open>
  Unicode whitespace, as \<^verbatim>\<open>str.strip()\<close> and the pattern \<^verbatim>\<open>\s\<close> of a str regular
  expression test it.
\<close>

definition uni_space :: "nat \<Rightarrow> bool" where
  "uni_space c \<longleftrightarrow>
     (9 \<le> c \<and> c \<le> 13) \<or> (28 \<le> c \<and> c \<le> 32) \<or> c = 0x85 \<or> c = 0xA0 \<or> c = 0x1680 \<or>
     (0x2000 \<le> c \<and> c \<le> 0x200A) \<or> c = 0x2028 \<or> c = 0x2029 \<or> c = 0x202F \<or>
     c = 0x205F \<or> c = 0x3000"

definition strip :: "pystr \<Rightarrow> pystr" where
  "strip s = rev (dropWhile uni_space (rev (dropWhile uni_space s)))"

fun join_lines :: "pystr list \<Rightarrow> pystr" where
  "join_lines [] = []"
| "join_lines [c] = c"
| "join_lines (c # cs) = c @ [10] @ join_lines cs"

text \<open>Line 200: \<^verbatim>\<open>raw = "\n".join(chunks).strip() if chunks else ""\<close>.\<close>

definition raw_of_chunks :: "pystr list \<Rightarrow> pystr" where
  "raw_of_chunks chunks = (if chunks \<noteq> [] then strip (join_lines chunks) else [])"

section \<open>Locating the JSON text\<close>

text \<open>
  Line 209: \<^verbatim>\<open>re.search(r"```(?:json)?\s*(\{.*?\})\s*```", raw, re.S | re.I)\<close>.
  The search tries every start position from the left; at a position the pattern is
  matched piece by piece, as the backtracking matcher does:
  \<^item> three backticks (code point 96);
  \<^item> \<^verbatim>\<open>(?:json)?\<close>, greedy: first with the word, then without it. Under \<^verbatim>\<open>re.I\<close>
    the letters match in both cases and \<open>s\<close> also matches U+017F;
  \<^item> \<^verbatim>\<open>\s*\<close> before a character that is not whitespace: only the whole run of
    whitespace can be followed by it, so a shorter run never matches;
  \<^item> \<^verbatim>\<open>\{.*?\}\<close>, lazy, with \<^verbatim>\<open>re.S\<close> letting the dot match every character: the
    group ends at the first closing brace after which whitespace and three backticks
    follow.
\<close>

fun after_prefix :: "pystr \<Rightarrow> pystr \<Rightarrow> pystr option" where
  "after_prefix [] t = Some t"
| "after_prefix (p # ps) [] = None"
| "after_prefix (p # ps) (c # cs) = (if p = c then after_prefix ps cs else None)"

definition fence :: pystr where
  "fence = [96, 96, 96]"

definition after_json_word :: "pystr \<Rightarrow> pystr option" where
  "after_json_word t =
    (case t of
       c1 # c2 # c3 # c4 # rest \<Rightarrow>
         if (c1 = 106 \<or> c1 = 74) \<and> (c2 = 115 \<or> c2 = 83 \<or> c2 = 383) \<and>
            (c3 = 111 \<or> c3 = 79) \<and> (c4 = 110 \<or> c4 = 78)
         then Some rest else None
     | _ \<Rightarrow> None)"

fun lazy_body :: "pystr \<Rightarrow> pystr option" where
  "lazy_body [] = None"
| "lazy_body (c # cs) =
    (if c = 125 \<and> after_prefix fence (dropWhile uni_space cs) \<noteq> None then Some [c]
     else map_option ((#) c) (lazy_body cs))"

definition fence_group :: "pystr \<Rightarrow> pystr option" where
  "fence_group t =
    (case dropWhile uni_space t of
       [] \<Rightarrow> None
     | c # cs \<Rightarrow> if c = 123 then map_option ((#) c) (lazy_body cs) else None)"

definition match_here :: "pystr \<Rightarrow> pystr option" where
  "match_here t =
    (case after_prefix fence t of
       None \<Rightarrow> None
     | Some t1 \<Rightarrow>
        (case after_json_word t1 of
           None \<Rightarrow> fence_group t1
         | Some t2 \<Rightarrow> (case fence_group t2 of Some g \<Rightarrow> Some g | None \<Rightarrow> fence_group t1)))"

fun fence_search :: "pystr \<Rightarrow> pystr option" where
  "fence_search [] = None"
| "fence_search (c # cs) =
    (case match_here (c # cs) of Some g \<Rightarrow> Some g | None \<Rightarrow> fence_search cs)"

text \<open>
  Lines 214-224: from the first opening brace (123), count the braces; the text ends at
  the closing brace (125) that brings the depth back to zero. The result is
  \<^verbatim>\<open>raw[start : i + 1]\<close>, and nothing when the text ends first.
\<close>

fun scan_braces :: "int \<Rightarrow> pystr \<Rightarrow> pystr option" where
  "scan_braces depth [] = None"
| "scan_braces depth (c # cs) =
    (if c = 123 then map_option ((#) c) (scan_braces (depth + 1) cs)
     else if c = 125 then
       (if depth - 1 = 0 then Some [c] else map_option ((#) c) (scan_braces (depth - 1) cs))
     else map_option ((#) c) (scan_braces depth cs))"

definition brace_scan :: "pystr \<Rightarrow> pystr option" where
  "brace_scan raw = scan_braces 0 (dropWhile (\<lambda>c. c \<noteq> 123) raw)"

definition find_json :: "pystr \<Rightarrow> pystr option" where
  "find_json raw =
    (case fence_search raw of Some g \<Rightarrow> Some g | None \<Rightarrow> brace_scan raw)"

section \<open>Normalizing the parsed object\<close>

definition known_themes :: "pystr list" where
  "known_themes = [py ''blue_orange'', py ''green_gold'', py ''red_yellow'', py ''yellow_blue'']"

text \<open>
  Lines 237-254. \<open>parsed\<close> is what \<^verbatim>\<open>json.loads\<close> returned; the three assignments
  update the dict, which is returned. \<^verbatim>\<open>theme not in [...]\<close> compares with four strs,
  and only a str is equal to a str.
\<close>

definition normalize_fields ::
  "(pyval \<Rightarrow> pystr) \<Rightarrow> pyval \<Rightarrow> py_exception + (pystr, pyval) fmap" where
  "normalize_fields repr parsed =
    (case parsed of
       PDict d0 \<Rightarrow>
        (let theme0 = dict_get d0 (py ''color_theme'') (PStr (py ''blue_orange''));
             theme = (if theme0 \<notin> set (map PStr known_themes) then PStr (py ''blue_orange'')
                      else theme0);
             d1 = fmupd (py ''color_theme'') theme d0;
             bullets0 = py_or (dict_get d1 (py ''bullet_points_ta'') PNone) (PList []);
             bullets = (case bullets0 of PList xs \<Rightarrow> xs | v \<Rightarrow> [PStr (py_str repr v)]);
             d2 = fmupd (py ''bullet_points_ta'') (PList (take 3 bullets)) d1;
             text_colors = py_or (dict_get d2 (py ''text_colors'') PNone) (PDict fmempty)
         in case text_colors of
              PDict tc \<Rightarrow>
                Inr (fmupd (py ''text_colors'')
                  (PDict (fmap_of_list
                    [(py ''headline'', dict_get tc (py ''headline'') (PStr (py ''dark_blue''))),
                     (py ''body'', dict_get tc (py ''body'') (PStr (py ''black''))),
                     (py ''cta'', dict_get tc (py ''cta'') (PStr (py ''red'')))])) d2)
            | _ \<Rightarrow> Inl AttributeError)
     | _ \<Rightarrow> Inl AttributeError)"

section \<open>Parsing the response\<close>

text \<open>
  Lines 202-254 of \<^verbatim>\<open>generate_text\<close>, from the raw text on. \<open>loads\<close> is
  \<^verbatim>\<open>json.loads\<close> of the standard library: it returns the parsed value, or raises, and
  then \<open>Inl\<close> holds the text of the exception.
\<close>

definition parse_response ::
  "(pystr \<Rightarrow> pystr + pyval) \<Rightarrow> (pyval \<Rightarrow> pystr) \<Rightarrow> pystr \<Rightarrow>
     py_exception + (pystr, pyval) fmap" where
  "parse_response loads repr raw =
    (if raw = [] then Inl EmptyResponse
     else
       (case find_json raw of
          None \<Rightarrow> Inl (NoJsonFound raw)
        | Some json_text \<Rightarrow>
            if json_text = [] then Inl (NoJsonFound raw)
            else
              (case loads json_text of
                 Inl e \<Rightarrow> Inl (InvalidJson e json_text)
               | Inr parsed \<Rightarrow> normalize_fields repr parsed)))"

text \<open>Lines 183-254: the chunks of text of the service's answer, joined and parsed.\<close>

definition generate_text_of_chunks ::
  "(pystr \<Rightarrow> pystr + pyval) \<Rightarrow> (pyval \<Rightarrow> pystr) \<Rightarrow> pystr list \<Rightarrow>
     py_exception + (pystr, pyval) fmap" where
  "generate_text_of_chunks loads repr chunks = parse_response loads repr (raw_of_chunks chunks)"

section \<open>Sample inputs\<close>

text \<open>
  \<^verbatim>\<open>json.loads\<close> on the texts of a table: the value listed for a text, and the
  exception for every other text. The examples below list, for a JSON text, the value
  the library returns for it.
\<close>

definition loads_table :: "(pystr \<times> pyval) list \<Rightarrow> pystr \<Rightarrow> pystr + pyval" where
  "loads_table tbl s =
    (case map_of tbl s of Some v \<Rightarrow> Inr v | None \<Rightarrow> Inl (py ''Expecting value''))"

text \<open>
  The text \<^verbatim>\<open>{"color_theme": 7, "bullet_points_ta": "x"}\<close> (34 is the double quote),
  the object it denotes, and the record \<^verbatim>\<open>generate_text\<close> returns for it.
\<close>

definition sample_text :: pystr where
  "sample_text =
     py ''{'' @ [34] @ py ''color_theme'' @ [34] @ py '': 7, '' @ [34] @ py ''bullet_points_ta'' @
     [34] @ py '': '' @ [34] @ py ''x'' @ [34] @ py ''}''"

definition sample_object :: pyval where
  "sample_object = PDict (fmap_of_list
     [(py ''color_theme'', PInt 7), (py ''bullet_points_ta'', PStr (py ''x''))])"

definition sample_copy :: "(pystr, pyval) fmap" where
  "sample_copy =
    fmupd (py ''text_colors'') (PDict (fmap_of_list
         [(py ''headline'', PStr (py ''dark_blue'')), (py ''body'', PStr (py ''black'')),
          (py ''cta'', PStr (py ''red''))]))
     (fmupd (py ''bullet_points_ta'') (PList [PStr (py ''x'')])
     (fmupd (py ''color_theme'') (PStr (py ''blue_orange''))
       (fmap_of_list [(py ''color_theme'', PInt 7), (py ''bullet_points_ta'', PStr (py ''x''))])))"

text \<open>
  Parsed objects used as examples: one with five bullets, one whose bullets are the
  number zero, one with an unknown theme and no \<open>text_colors\<close>, and the record of the
  three default text colors (lines 249-251).
\<close>

definition five_bullets :: "(pystr, pyval) fmap" where
  "five_bullets = fmap_of_list
     [(py ''headline_ta'', PStr (py ''X'')),
      (py ''bullet_points_ta'',
        PList [PStr (py ''A''), PStr (py ''B''), PStr (py ''C''), PStr (py ''D''), PStr (py ''E'')])]"

definition zero_bullets :: "(pystr, pyval) fmap" where
  "zero_bullets = fmap_of_list [(py ''bullet_points_ta'', PInt 0)]"

definition purple_pink :: "(pystr, pyval) fmap" where
  "purple_pink = fmap_of_list
     [(py ''headline_ta'', PStr (py ''X'')), (py ''color_theme'', PStr (py ''purple_pink''))]"



text \<open>A record as normalization leaves it: three bullets, a known theme, the three roles.\<close>

definition normalized_copy :: "(pystr, pyval) fmap" where
  "normalized_copy = fmap_of_list
     [(py ''headline_ta'', PStr (py ''X'')),
      (py ''bullet_points_ta'', PList [PStr (py ''A''), PStr (py ''B''), PStr (py ''C'')]),
      (py ''color_theme'', PStr (py ''green_gold'')),
      (py ''text_colors'', PDict (fmap_of_list
         [(py ''headline'', PStr (py ''dark_green'')), (py ''body'', PStr (py ''black'')),
          (py ''cta'', PStr (py ''green''))]))]"

text \<open>
  A response that holds a JSON text in a fenced code block, in every spelling the
  pattern of line 209 accepts: three backticks, then nothing or the word json in any
  letter case, then any whitespace, the text, any whitespace, and three backticks.
  \<open>fenced_block\<close> is the usual spelling, with the word json and the text on lines of
  its own.
\<close>

definition fence_word :: "pystr \<Rightarrow> bool" where
  "fence_word w \<longleftrightarrow> w = [] \<or> after_json_word w = Some []"

definition fenced_with :: "pystr \<Rightarrow> pystr \<Rightarrow> pystr \<Rightarrow> pystr \<Rightarrow> pystr" where
  "fenced_with word ws1 s ws2 = fence @ word @ ws1 @ s @ ws2 @ fence"

definition fenced_block :: "pystr \<Rightarrow> pystr" where
  "fenced_block s = fence @ py ''json'' @ [10] @ s @ [10] @ fence"

text \<open>
  The text \<^verbatim>\<open>{"headline_ta": "{"}\<close>, whose string value holds an opening brace, and
  the object it denotes.
\<close>

definition brace_text :: pystr where
  "brace_text = py ''{'' @ [34] @ py ''headline_ta'' @ [34] @ py '': '' @ [34] @ py ''{'' @ [34] @ py ''}''"

definition brace_object :: pyval where
  "brace_object = PDict (fmap_of_list [(py ''headline_ta'', PStr (py ''{''))])"

section \<open>Basic facts\<close>

lemma py_Nil: "py [] = []"
  by (simp add: py_def)

lemma py_Cons: "py (c # cs) = of_char c # py cs"
  by (simp add: py_def)

lemma key_neq:
  "py ''color_theme'' \<noteq> py ''bullet_points_ta''"
  "py ''color_theme'' \<noteq> py ''text_colors''"
  "py ''bullet_points_ta'' \<noteq> py ''text_colors''"
  "py ''bullet_points_ta'' \<noteq> py ''color_theme''"
  "py ''text_colors'' \<noteq> py ''color_theme''"
  "py ''text_colors'' \<noteq> py ''bullet_points_ta''"
  by (simp_all add: py_Nil py_Cons)


lemma exception_distinct:
  "EmptyResponse \<noteq> NoJsonFound raw" "EmptyResponse \<noteq> InvalidJson e t"
  "NoJsonFound raw \<noteq> InvalidJson e t" "EmptyResponse \<noteq> AttributeError"
  "NoJsonFound raw \<noteq> AttributeError" "InvalidJson e t \<noteq> AttributeError"
  "NoJsonFound raw \<noteq> EmptyResponse" "InvalidJson e t \<noteq> EmptyResponse"
  "InvalidJson e t \<noteq> NoJsonFound raw"
  by (simp_all add: EmptyResponse_def NoJsonFound_def InvalidJson_def py_Nil py_Cons)

lemmas locate_simps = find_json_def brace_scan_def match_here_def fence_def fence_group_def
  after_json_word_def uni_space_def py_Nil py_Cons

subsection \<open>The located text is never empty\<close>

lemma scan_braces_nonempty: "scan_braces depth t = Some r \<Longrightarrow> r \<noteq> []"
  by (induction t arbitrary: depth r) (auto split: if_splits)

lemma lazy_body_nonempty: "lazy_body t = Some r \<Longrightarrow> r \<noteq> []"
  by (induction t arbitrary: r) (auto split: if_splits)

lemma fence_group_nonempty: "fence_group t = Some r \<Longrightarrow> r \<noteq> []"
  by (auto simp add: fence_group_def split: list.splits if_splits)

lemma match_here_nonempty: "match_here t = Some r \<Longrightarrow> r \<noteq> []"
  by (auto simp add: match_here_def split: option.splits dest: fence_group_nonempty)

lemma fence_search_nonempty: "fence_search t = Some r \<Longrightarrow> r \<noteq> []"
  by (induction t) (auto split: option.splits dest: match_here_nonempty)

lemma find_json_nonempty: "find_json raw = Some r \<Longrightarrow> r \<noteq> []"
  by (auto simp add: find_json_def brace_scan_def split: option.splits
      dest: fence_search_nonempty scan_braces_nonempty)

subsection \<open>What normalization returns\<close>

lemma normalize_fields_not_ValueError: "normalize_fields repr parsed \<noteq> Inl (ValueError m)"
  by (auto simp add: normalize_fields_def Let_def split: pyval.splits)

lemma normalize_fields_not_EmptyResponse: "normalize_fields repr parsed \<noteq> Inl EmptyResponse"
  by (simp add: EmptyResponse_def normalize_fields_not_ValueError)

text \<open>
  A returned record comes from a dict whose \<open>text_colors\<close> is absent, false or a dict;
  its three normalized keys hold the values computed in lines 237-252, and every other
  key is looked up as before.
\<close>

lemma normalize_fields_InrD:
  assumes "normalize_fields repr parsed = Inr d'"
  obtains d tc where "parsed = PDict d"
    and "py_or (dict_get d (py ''text_colors'') PNone) (PDict fmempty) = PDict tc"
    and "fmlookup d' (py ''text_colors'') = Some (PDict (fmap_of_list
                    [(py ''headline'', dict_get tc (py ''headline'') (PStr (py ''dark_blue''))),
                     (py ''body'', dict_get tc (py ''body'') (PStr (py ''black''))),
                     (py ''cta'', dict_get tc (py ''cta'') (PStr (py ''red'')))]))"
    and "fmlookup d' (py ''bullet_points_ta'') = Some (PList (take 3
           (case py_or (dict_get d (py ''bullet_points_ta'') PNone) (PList []) of
              PList xs \<Rightarrow> xs | v \<Rightarrow> [PStr (py_str repr v)])))"
    and "fmlookup d' (py ''color_theme'') =
           Some (let theme0 = dict_get d (py ''color_theme'') (PStr (py ''blue_orange''))
                 in if theme0 \<notin> set (map PStr known_themes) then PStr (py ''blue_orange'')
                    else theme0)"
    and "\<And>k. k \<noteq> py ''color_theme'' \<Longrightarrow> k \<noteq> py ''bullet_points_ta'' \<Longrightarrow>
           k \<noteq> py ''text_colors'' \<Longrightarrow> fmlookup d' k = fmlookup d k"
proof -
  from assms obtain d where d: "parsed = PDict d"
    by (cases parsed) (simp_all add: normalize_fields_def)
  let ?tcv = "py_or (dict_get d (py ''text_colors'') PNone) (PDict fmempty)"
  have tcv: "py_or (dict_get (fmupd (py ''bullet_points_ta'') b (fmupd (py ''color_theme'') t d))
        (py ''text_colors'') PNone) (PDict fmempty) = ?tcv" for b t
    by (simp add: dict_get_def key_neq)
  from assms d obtain tc where tc: "?tcv = PDict tc"
    by (cases ?tcv) (simp_all add: normalize_fields_def Let_def tcv)
  show thesis
  proof (rule that [OF d tc])
    show "fmlookup d' (py ''text_colors'') = Some (PDict (fmap_of_list
                    [(py ''headline'', dict_get tc (py ''headline'') (PStr (py ''dark_blue''))),
                     (py ''body'', dict_get tc (py ''body'') (PStr (py ''black''))),
                     (py ''cta'', dict_get tc (py ''cta'') (PStr (py ''red'')))]))"
      using assms d tc by (auto simp add: normalize_fields_def Let_def tcv)
    show "fmlookup d' (py ''bullet_points_ta'') = Some (PList (take 3
           (case py_or (dict_get d (py ''bullet_points_ta'') PNone) (PList []) of
              PList xs \<Rightarrow> xs | v \<Rightarrow> [PStr (py_str repr v)])))"
      using assms d tc by (auto simp add: normalize_fields_def Let_def tcv dict_get_def key_neq)
    show "fmlookup d' (py ''color_theme'') =
           Some (let theme0 = dict_get d (py ''color_theme'') (PStr (py ''blue_orange''))
                 in if theme0 \<notin> set (map PStr known_themes) then PStr (py ''blue_orange'')
                    else theme0)"
      using assms d tc by (auto simp add: normalize_fields_def Let_def tcv key_neq)
    show "fmlookup d' k = fmlookup d k"
      if "k \<noteq> py ''color_theme''" "k \<noteq> py ''bullet_points_ta''" "k \<noteq> py ''text_colors''"
      for k
      using assms d tc that by (auto simp add: normalize_fields_def Let_def tcv)
  qed
qed

lemma parse_response_Inr:
  assumes "parse_response loads repr raw = Inr copy"
  obtains json_text parsed where "raw \<noteq> []" "find_json raw = Some json_text"
    "loads json_text = Inr parsed" "normalize_fields repr parsed = Inr copy"
  using assms
  by (auto simp add: parse_response_def split: if_splits option.splits sum.splits)

subsection \<open>The sample\<close>

lemma find_json_sample: "find_json sample_text = Some sample_text"
  by (simp add: sample_text_def locate_simps)

lemma sample_text_nonempty: "sample_text \<noteq> []"
  by (simp add: sample_text_def py_Cons)

lemma normalize_sample: "normalize_fields repr sample_object = Inr sample_copy"
  by (simp add: normalize_fields_def sample_object_def sample_copy_def Let_def dict_get_def
      py_or_def py_str_def known_themes_def fmlookup_of_list key_neq py_Nil py_Cons)

lemma parse_sample:
  "parse_response (loads_table [(sample_text, sample_object)]) repr sample_text = Inr sample_copy"
  by (simp add: parse_response_def find_json_sample sample_text_nonempty loads_table_def
      normalize_sample)

subsection \<open>More on normalization\<close>

lemma fmupd_same: "fmlookup m k = Some v \<Longrightarrow> fmupd k v m = m"
  by (rule fmap_ext) auto

lemma normalize_fields_form:
  assumes "normalize_fields repr (PDict d) = Inr d'"
  shows "\<exists>t b c. d' = fmupd (py ''text_colors'') c
            (fmupd (py ''bullet_points_ta'') b (fmupd (py ''color_theme'') t d))"
  using assms by (auto simp add: normalize_fields_def Let_def split: pyval.splits)

lemma normalize_fields_returns:
  assumes "py_or (dict_get d (py ''text_colors'') PNone) (PDict fmempty) = PDict tc"
  shows "\<exists>d'. normalize_fields repr (PDict d) = Inr d'"
  using assms by (simp add: normalize_fields_def Let_def dict_get_def key_neq)

lemma rebuild_roles:
  assumes "fmdom tc = {|py ''headline'', py ''body'', py ''cta''|}"
  shows "fmap_of_list
          [(py ''headline'', dict_get tc (py ''headline'') a),
           (py ''body'', dict_get tc (py ''body'') b),
           (py ''cta'', dict_get tc (py ''cta'') c)] = tc"
proof (rule fmap_ext)
  fix k
  have dom: "fmlookup tc k = None \<longleftrightarrow> k \<noteq> py ''headline'' \<and> k \<noteq> py ''body'' \<and> k \<noteq> py ''cta''"
    using assms by (metis fmdom_notD fmdom_notI finsert_iff fempty_iff)
  show "fmlookup (fmap_of_list
          [(py ''headline'', dict_get tc (py ''headline'') a),
           (py ''body'', dict_get tc (py ''body'') b),
           (py ''cta'', dict_get tc (py ''cta'') c)]) k = fmlookup tc k"
    using dom by (auto simp add: fmlookup_of_list dict_get_def split: option.splits)
qed

lemma normalize_fixed_point:
  assumes th: "fmlookup d (py ''color_theme'') = Some (PStr t)" and t: "t \<in> set known_themes"
    and bu: "fmlookup d (py ''bullet_points_ta'') = Some (PList bs)" and len: "length bs \<le> 3"
    and tc: "fmlookup d (py ''text_colors'') = Some (PDict tc)"
    and dom: "fmdom tc = {|py ''headline'', py ''body'', py ''cta''|}"
  shows "normalize_fields repr (PDict d) = Inr d"
proof -
  have ne: "tc \<noteq> fmempty" using dom by auto
  have bs: "py_or (PList bs) (PList []) = PList bs"
    by (cases bs) (simp_all add: py_or_def)
  show ?thesis
    using th t bu len tc ne
    by (simp add: normalize_fields_def Let_def dict_get_def py_or_def bs [unfolded py_or_def]
        fmupd_same key_neq rebuild_roles [OF dom, unfolded dict_get_def]
        del: fmap_of_list_simps)
qed

lemma bullets_of_record:
  assumes "normalize_fields repr (PDict d) = Inr d'"
  shows "fmlookup d' (py ''bullet_points_ta'') = Some (PList (take 3
           (case py_or (dict_get d (py ''bullet_points_ta'') PNone) (PList []) of
              PList xs \<Rightarrow> xs | v \<Rightarrow> [PStr (py_str repr v)])))"
  using assms by (rule normalize_fields_InrD) simp



subsection \<open>Locating a text without backticks\<close>

lemma match_here_other: "c \<noteq> 96 \<Longrightarrow> match_here (c # cs) = None"
  by (simp add: match_here_def fence_def)

lemma fence_search_skip: "96 \<notin> set pre \<Longrightarrow> fence_search (pre @ t) = fence_search t"
  by (induction pre) (simp_all add: match_here_other)

lemma fence_search_no_backtick: "96 \<notin> set t \<Longrightarrow> fence_search t = None"
  using fence_search_skip [of t "[]"] by simp

lemma scan_braces_append: "scan_braces depth s = Some r \<Longrightarrow> scan_braces depth (s @ post) = Some r"
  by (induction s arbitrary: depth r) (auto split: if_splits)

lemma scan_braces_length: "scan_braces depth t = Some r \<Longrightarrow> length r \<le> length t"
  by (induction t arbitrary: depth r) (auto split: if_splits)

lemma scan_braces_last: "scan_braces depth t = Some r \<Longrightarrow> last r = 125"
  by (induction t arbitrary: depth r) (auto split: if_splits dest: scan_braces_nonempty)

lemma brace_scan_whole:
  assumes "brace_scan s = Some s"
  obtains body where "s = 123 # body" "scan_braces 0 s = Some s" "last s = 125"
proof -
  let ?t = "dropWhile (\<lambda>c. c \<noteq> 123) s"
  from assms have sc: "scan_braces 0 ?t = Some s" by (simp add: brace_scan_def)
  then have "length s \<le> length ?t" by (rule scan_braces_length)
  moreover have "length (takeWhile (\<lambda>c. c \<noteq> 123) s) + length ?t = length s"
    by (metis length_append takeWhile_dropWhile_id)
  ultimately have "length (takeWhile (\<lambda>c. c \<noteq> 123) s) = 0" by linarith
  then have "takeWhile (\<lambda>c. c \<noteq> 123) s = []" by simp
  then have t: "?t = s" by (metis append_Nil takeWhile_dropWhile_id)
  from sc have ne: "s \<noteq> []" by (rule scan_braces_nonempty)
  from t ne have "hd s = 123" by (metis (mono_tags, lifting) dropWhile_eq_self_iff)
  with ne obtain body where "s = 123 # body" by (cases s) auto
  moreover from sc t have "scan_braces 0 s = Some s" by simp
  moreover from sc have "last s = 125" by (rule scan_braces_last)
  ultimately show thesis by (rule that)
qed

lemma no_fence_before_closing:
  "96 \<notin> set body \<Longrightarrow> after_prefix fence (dropWhile uni_space (body @ 125 # rest)) = None"
  by (induction body) (auto simp add: fence_def uni_space_def)

lemma spaces_then_other:
  "list_all uni_space ws \<Longrightarrow> \<not> uni_space c \<Longrightarrow> dropWhile uni_space (ws @ c # t) = c # t"
  by (induction ws) simp_all

lemma not_space: "\<not> uni_space 96" "\<not> uni_space 123"
  by (simp_all add: uni_space_def)

lemma lazy_body_closing:
  assumes "96 \<notin> set body" and "list_all uni_space ws"
  shows "lazy_body (body @ 125 # ws @ fence @ post) = Some (body @ [125])"
  using assms(1)
proof (induction body)
  case Nil
  have "dropWhile uni_space (ws @ fence @ post) = fence @ post"
    using spaces_then_other [OF assms(2) not_space(1)] by (simp add: fence_def)
  then show ?case by (simp add: fence_def)
next
  case (Cons c body)
  then show ?case by (simp add: no_fence_before_closing)
qed

lemma after_json_word_append: "after_json_word w = Some [] \<Longrightarrow> after_json_word (w @ t) = Some t"
  by (auto simp add: after_json_word_def split: list.splits if_splits)

lemma after_json_word_spaces:
  "list_all uni_space ws \<Longrightarrow> after_json_word (ws @ 123 # t) = None"
  by (cases ws) (auto simp add: after_json_word_def uni_space_def split: list.splits)

lemma fence_search_fenced:
  assumes s: "s = 123 # body" "last s = 125" "96 \<notin> set s"
    and w: "fence_word word" and ws: "list_all uni_space ws1" "list_all uni_space ws2"
  shows "fence_search (fenced_with word ws1 s ws2 @ post) = Some s"
proof -
  have "body \<noteq> []" using s by auto
  then obtain body' where b: "body = body' @ [125]"
    using s by (metis append_butlast_last_id last_ConsR)
  have nb: "96 \<notin> set body'" using s b by simp
  let ?rest = "ws1 @ s @ ws2 @ fence @ post"
  have "dropWhile uni_space ?rest = s @ ws2 @ fence @ post"
    using spaces_then_other [OF ws(1) not_space(2)] s(1) by simp
  then have g: "fence_group ?rest = Some s"
    using lazy_body_closing [OF nb ws(2), of post] by (simp add: fence_group_def s(1) b)
  have "(case after_json_word (word @ ?rest) of
           None \<Rightarrow> fence_group (word @ ?rest)
         | Some t2 \<Rightarrow> (case fence_group t2 of Some g \<Rightarrow> Some g
                        | None \<Rightarrow> fence_group (word @ ?rest))) = Some s"
  proof (cases "word = []")
    case True
    have "after_json_word ?rest = None"
      using after_json_word_spaces [OF ws(1)] s(1) by simp
    with True g show ?thesis by simp
  next
    case False
    with w have "after_json_word (word @ ?rest) = Some ?rest"
      by (simp add: fence_word_def after_json_word_append)
    with g show ?thesis by simp
  qed
  moreover have "after_prefix fence (fence @ t) = Some t" for t
    by (simp add: fence_def)
  ultimately have m: "match_here (fenced_with word ws1 s ws2 @ post) = Some s"
    by (simp add: match_here_def fenced_with_def)
  have "fenced_with word ws1 s ws2 @ post = 96 # tl (fenced_with word ws1 s ws2 @ post)"
    by (simp add: fenced_with_def fence_def)
  then show ?thesis using m by (metis fence_search.simps(2) option.simps(5))
qed

lemma fenced_block_spelling: "fenced_block s = fenced_with (py ''json'') [10] s [10]"
  by (simp add: fenced_block_def fenced_with_def)

section \<open>Facts about the prompt\<close>

declare str_nat.simps [simp del]

lemma str_nat_digit: "n < 10 \<Longrightarrow> str_nat n = [48 + n]"
  by (simp add: str_nat.simps)

lemma str_1080: "str_nat 1080 = py ''1080''"
  by (simp add: str_nat.simps [of 1080] str_nat.simps [of 108] str_nat.simps [of 10]
      str_nat_digit py_Nil py_Cons)

lemma str_210: "str_nat 210 = py ''210''"
  by (simp add: str_nat.simps [of 210] str_nat.simps [of 21] str_nat_digit py_Nil py_Cons)

lemma occurrences_Nil: "p \<noteq> [] \<Longrightarrow> occurrences p [] = 0"
  by simp

lemma occurrences_pair_append:
  "a = [] \<or> last a \<noteq> x \<Longrightarrow>
     occurrences [x, y] (a @ b) = occurrences [x, y] a + occurrences [x, y] b"
proof (induction a)
  case Nil
  then show ?case by simp
next
  case (Cons c a)
  show ?case
  proof (cases a)
    case Nil
    with Cons.prems show ?thesis by (cases b) auto
  next
    case (Cons c' a')
    with Cons.prems Cons.IH show ?thesis by auto
  qed
qed

lemma occurrences_tl: "occurrences p (tl t) \<le> occurrences p t"
  by (cases t) auto

lemma occurrences_drop: "occurrences p (drop n t) \<le> occurrences p t"
proof (induction n arbitrary: t)
  case 0
  then show ?case by simp
next
  case (Suc n)
  show ?case
  proof (cases t)
    case Nil
    then show ?thesis by simp
  next
    case (Cons c cs)
    then show ?thesis using Suc.IH [of cs] by simp
  qed
qed

lemma occurrences_at_least: "b \<noteq> [] \<Longrightarrow> 1 \<le> occurrences b (h @ b @ t)"
proof (induction h)
  case Nil
  then show ?case by (cases b) simp_all
next
  case (Cons c h)
  then show ?case by (simp add: trans_le_add2)
qed

text \<open>Three patterns of which no two occur at the same place, each holding the pair at offset 3.\<close>

lemma three_patterns_bound:
  assumes pair: "prefix q (drop 3 c1)" "prefix q (drop 3 c2)" "prefix q (drop 3 c3)" "q \<noteq> []"
    and apart: "\<not> prefix c1 c2" "\<not> prefix c2 c1" "\<not> prefix c1 c3" "\<not> prefix c3 c1"
      "\<not> prefix c2 c3" "\<not> prefix c3 c2"
  shows "occurrences c1 t + occurrences c2 t + occurrences c3 t \<le> occurrences q (drop 3 t)"
proof (induction t)
  case Nil
  from pair have "c1 \<noteq> []" "c2 \<noteq> []" "c3 \<noteq> []" by auto
  then show ?case by simp
next
  case (Cons x t)
  let ?s = "drop 3 (x # t)"
  have here: "prefix q ?s" if "prefix c (x # t)" "prefix q (drop 3 c)" for c
  proof -
    from that(1) obtain z where "x # t = c @ z" by (auto simp add: prefix_def)
    moreover from that(2) \<open>q \<noteq> []\<close> have "3 \<le> length c" by (cases "3 \<le> length c") auto
    ultimately have "?s = drop 3 c @ z" by simp
    with that(2) show ?thesis by (metis prefix_prefix)
  qed
  have one: "(if prefix c1 (x # t) then 1 else 0) + (if prefix c2 (x # t) then 1 else 0) +
      (if prefix c3 (x # t) then 1 else 0) \<le> (if prefix q ?s then 1 else (0::nat))"
    using here [of c1] here [of c2] here [of c3] pair apart
      prefix_same_cases [of c1 "x # t" c2] prefix_same_cases [of c1 "x # t" c3]
      prefix_same_cases [of c2 "x # t" c3]
    by auto
  have rest: "drop 3 t = tl ?s"
    by (cases t) (simp_all add: numeral_3_eq_3 drop_Suc tl_drop)
  show ?case
  proof (cases ?s)
    case Nil
    with rest have "drop 3 t = []" by simp
    with Cons.IH \<open>q \<noteq> []\<close> have "occurrences c1 t + occurrences c2 t + occurrences c3 t = 0"
      by simp
    moreover from Nil one \<open>q \<noteq> []\<close> have "(if prefix c1 (x # t) then 1 else 0) +
      (if prefix c2 (x # t) then 1 else 0) + (if prefix c3 (x # t) then 1 else (0::nat)) = 0"
      by simp
    ultimately show ?thesis by simp
  next
    case (Cons y s')
    with rest have "occurrences q ?s = (if prefix q ?s then 1 else 0) + occurrences q (drop 3 t)"
      by simp
    with one Cons.IH show ?thesis by simp
  qed
qed

lemmas prompt_defs = prompt_of_style_block_def prompt_part1_def prompt_part2_def prompt_part3_def
  prompt_part4_def prompt_part5_def POSTER_WIDTH_def POSTER_HEIGHT_def FOOTER_HEIGHT_def
  str_1080 str_210

lemma pair_in_conversation:
  "occurrences [89, 76] (prompt_of_style_block style_conversation) = 1"
  by (simp add: prompt_defs style_conversation_def py_Nil py_Cons occurrences_pair_append
      del: append.simps append_Cons append_Nil)

lemma pair_in_fact_based:
  "occurrences [89, 76] (prompt_of_style_block style_fact_based) = 1"
  by (simp add: prompt_defs style_fact_based_def py_Nil py_Cons occurrences_pair_append
      del: append.simps append_Cons append_Nil)

lemma pair_in_standard:
  "occurrences [89, 76] (prompt_of_style_block style_standard) = 1"
  by (simp add: prompt_defs style_standard_def py_Nil py_Cons occurrences_pair_append
      del: append.simps append_Cons append_Nil)

lemma blocks_pair:
  "prefix [89, 76] (drop 3 style_conversation)"
  "prefix [89, 76] (drop 3 style_fact_based)"
  "prefix [89, 76] (drop 3 style_standard)"
  by (simp_all add: style_conversation_def style_fact_based_def style_standard_def py_Nil py_Cons)

lemma blocks_apart:
  "\<not> prefix style_conversation style_fact_based" "\<not> prefix style_fact_based style_conversation"
  "\<not> prefix style_conversation style_standard" "\<not> prefix style_standard style_conversation"
  "\<not> prefix style_fact_based style_standard" "\<not> prefix style_standard style_fact_based"
  by (simp_all add: style_conversation_def style_fact_based_def style_standard_def py_Nil py_Cons)

lemma blocks_in_prompt:
  assumes "occurrences [89, 76] (prompt_of_style_block b) = 1" and "b \<noteq> []"
  shows "occurrences style_conversation (prompt_of_style_block b) +
         occurrences style_fact_based (prompt_of_style_block b) +
         occurrences style_standard (prompt_of_style_block b) \<le> 1 \<and>
         1 \<le> occurrences b (prompt_of_style_block b)"
proof -
  let ?p = "prompt_of_style_block b"
  have "occurrences style_conversation ?p + occurrences style_fact_based ?p +
      occurrences style_standard ?p \<le> occurrences [89, 76] (drop 3 ?p)"
    by (rule three_patterns_bound [OF blocks_pair _ blocks_apart]) simp
  also have "\<dots> \<le> occurrences [89, 76] ?p" by (rule occurrences_drop)
  finally have "occurrences style_conversation ?p + occurrences style_fact_based ?p +
      occurrences style_standard ?p \<le> 1"
    using assms(1) by simp
  moreover have "1 \<le> occurrences b ?p"
    unfolding prompt_of_style_block_def
    using occurrences_at_least [OF assms(2), of "prompt_part1 @ str_nat POSTER_WIDTH @
      prompt_part2 @ str_nat POSTER_HEIGHT @ prompt_part3 @ str_nat FOOTER_HEIGHT @ prompt_part4"
      prompt_part5]
    by simp
  ultimately show ?thesis by simp
qed

lemma blocks_nonempty:
  "style_conversation \<noteq> []" "style_fact_based \<noteq> []" "style_standard \<noteq> []"
  using blocks_pair by auto

section \<open>Facts about the encoding\<close>

lemma b64_index_char: "i < 64 \<Longrightarrow> b64_index (b64_char i) = Some i"
  by (auto simp add: b64_index_def b64_char_def)

lemma b64_char_not_padding: "i < 64 \<Longrightarrow> b64_char i \<noteq> 61"
proof
  assume "i < 64" "b64_char i = 61"
  with b64_index_char [of i] show False by (simp add: b64_index_def)
qed

lemma byte_bound: "unat (a :: 8 word) < 256"
  using unsigned_less [of a] by simp

lemma sextets:
  fixes a b c :: nat
  assumes "a < 256" "b < 256" "c < 256"
  shows "a div 4 < 64" "a mod 4 * 16 < 64" "a mod 4 * 16 + b div 16 < 64"
    "b mod 16 * 4 < 64" "b mod 16 * 4 + c div 64 < 64" "c mod 64 < 64"
  using assms by auto

lemma regroup:
  fixes a b c :: nat
  assumes "b < 256" "c < 256"
  shows "a div 4 * 4 + (a mod 4 * 16) div 16 = a"
    "a div 4 * 4 + (a mod 4 * 16 + b div 16) div 16 = a"
    "(a mod 4 * 16 + b div 16) mod 16 * 16 + (b mod 16 * 4) div 4 = b"
    "(a mod 4 * 16 + b div 16) mod 16 * 16 + (b mod 16 * 4 + c div 64) div 4 = b"
    "(b mod 16 * 4 + c div 64) mod 4 * 64 + c mod 64 = c"
proof -
  have b: "b div 16 < 16" and c: "c div 64 < 4" using assms by auto
  show "a div 4 * 4 + (a mod 4 * 16) div 16 = a" by simp
  show "a div 4 * 4 + (a mod 4 * 16 + b div 16) div 16 = a" using b by simp
  show "(a mod 4 * 16 + b div 16) mod 16 * 16 + (b mod 16 * 4) div 4 = b" using b by simp
  show "(a mod 4 * 16 + b div 16) mod 16 * 16 + (b mod 16 * 4 + c div 64) div 4 = b"
    using b c by simp
  show "(b mod 16 * 4 + c div 64) mod 4 * 64 + c mod 64 = c" using c by simp
qed

lemma bytes_back:
  fixes a b c :: "8 word"
  shows "of_nat (unat a div 4 * 4 + (unat a mod 4 * 16) div 16) = a"
    "of_nat (unat a div 4 * 4 + (unat a mod 4 * 16 + unat b div 16) div 16) = a"
    "of_nat ((unat a mod 4 * 16 + unat b div 16) mod 16 * 16 + (unat b mod 16 * 4) div 4) = b"
    "of_nat ((unat a mod 4 * 16 + unat b div 16) mod 16 * 16 +
       (unat b mod 16 * 4 + unat c div 64) div 4) = b"
    "of_nat ((unat b mod 16 * 4 + unat c div 64) mod 4 * 64 + unat c mod 64) = c"
proof -
  have ofu: "of_nat (unat x) = x" for x :: "8 word" by simp
  note r = regroup [OF byte_bound byte_bound]
  show "of_nat (unat a div 4 * 4 + (unat a mod 4 * 16) div 16) = a"
    by (simp only: r ofu)
  show "of_nat (unat a div 4 * 4 + (unat a mod 4 * 16 + unat b div 16) div 16) = a"
    by (simp only: r ofu)
  show "of_nat ((unat a mod 4 * 16 + unat b div 16) mod 16 * 16 + (unat b mod 16 * 4) div 4) = b"
    by (simp only: r ofu)
  show "of_nat ((unat a mod 4 * 16 + unat b div 16) mod 16 * 16 +
       (unat b mod 16 * 4 + unat c div 64) div 4) = b"
    by (simp only: r ofu)
  show "of_nat ((unat b mod 16 * 4 + unat c div 64) mod 4 * 64 + unat c mod 64) = c"
    by (simp only: r ofu)
qed

lemma b64decode_group1:
  "b64decode [b64_char (unat a div 4), b64_char (unat a mod 4 * 16), 61, 61] = Some [a]"
proof -
  note s = sextets [OF byte_bound [of a] byte_bound [of a] byte_bound [of a]]
  have "b64decode [b64_char (unat a div 4), b64_char (unat a mod 4 * 16), 61, 61] =
      Some [of_nat (unat a div 4 * 4 + (unat a mod 4 * 16) div 16)]"
    by (simp add: b64_index_char s del: of_nat_add of_nat_mult)
  then show ?thesis by (simp only: bytes_back)
qed

lemma b64decode_group2:
  "b64decode [b64_char (unat a div 4), b64_char (unat a mod 4 * 16 + unat b div 16),
     b64_char (unat b mod 16 * 4), 61] = Some [a, b]"
proof -
  note s = sextets [OF byte_bound [of a] byte_bound [of b] byte_bound [of a]]
  have "b64decode [b64_char (unat a div 4), b64_char (unat a mod 4 * 16 + unat b div 16),
     b64_char (unat b mod 16 * 4), 61] =
      Some [of_nat (unat a div 4 * 4 + (unat a mod 4 * 16 + unat b div 16) div 16),
        of_nat ((unat a mod 4 * 16 + unat b div 16) mod 16 * 16 + (unat b mod 16 * 4) div 4)]"
    by (simp add: b64_index_char b64_char_not_padding s del: of_nat_add of_nat_mult)
  then show ?thesis by (simp only: bytes_back)
qed

lemma b64decode_group3:
  "b64decode ([b64_char (unat a div 4), b64_char (unat a mod 4 * 16 + unat b div 16),
     b64_char (unat b mod 16 * 4 + unat c div 64), b64_char (unat c mod 64)] @ t) =
   map_option (\<lambda>bs. a # b # c # bs) (b64decode t)"
proof -
  note s = sextets [OF byte_bound [of a] byte_bound [of b] byte_bound [of c]]
  have "b64decode ([b64_char (unat a div 4), b64_char (unat a mod 4 * 16 + unat b div 16),
     b64_char (unat b mod 16 * 4 + unat c div 64), b64_char (unat c mod 64)] @ t) =
   map_option (\<lambda>bs.
       of_nat (unat a div 4 * 4 + (unat a mod 4 * 16 + unat b div 16) div 16) #
       of_nat ((unat a mod 4 * 16 + unat b div 16) mod 16 * 16 +
         (unat b mod 16 * 4 + unat c div 64) div 4) #
       of_nat ((unat b mod 16 * 4 + unat c div 64) mod 4 * 64 + unat c mod 64) # bs)
     (b64decode t)"
    by (simp add: b64_index_char b64_char_not_padding s del: of_nat_add of_nat_mult)
  then show ?thesis by (simp only: bytes_back)
qed

lemma b64_roundtrip: "b64decode (b64encode bs) = Some bs"
proof (induction bs rule: b64encode.induct)
  case 1
  then show ?case by simp
next
  case (2 a)
  show ?case by (simp only: b64encode.simps b64decode_group1)
next
  case (3 a b)
  show ?case by (simp only: b64encode.simps b64decode_group2)
next
  case (4 a b c rest)
  then show ?case by (simp only: b64encode.simps b64decode_group3 option.map)
qed

lemma b64encode_length: "length (b64encode bs) = 4 * ((length bs + 2) div 3)"
proof (induction bs rule: b64encode.induct)
  case (4 a b c rest)
  have "(length rest + 3 + 2) div 3 = (length rest + 2) div 3 + 1" by simp
  with 4 show ?case by (simp add: add.commute)
qed simp_all

section \<open>Properties of the color helpers\<close>

lemma color_table_keys_distinct: "distinct (map fst color_table)"
  by (simp add: color_table_def py_Nil py_Cons)

text \<open>
  C8. Both color resolutions are total lookups with a fallback. \<open>color_from_name\<close>
  returns the table entry of a name the table has (navy gives #0f172a whatever the
  fallback) and the caller's fallback for every other name (unknown_color with fallback
  #000000 gives #000000). \<open>theme_colors\<close> returns the fixed triple of each of the four
  known themes and the blue_orange triple for every other theme name. Neither has a
  failing branch.
\<close>

theorem color_resolution_lookup_with_fallback:
  "color_from_name (py ''navy'') (py ''#000000'') = py ''#0f172a'' \<and>
   color_from_name (py ''unknown_color'') (py ''#000000'') = py ''#000000'' \<and>
   ((name, c) \<in> set color_table \<longrightarrow> color_from_name name fallback = c) \<and>
   (name \<notin> fst ` set color_table \<longrightarrow> color_from_name name fallback = fallback) \<and>
   theme_colors (py ''blue_orange'') = (py ''#e0f2fe'', py ''#ffedd5'', py ''#0f172a'') \<and>
   theme_colors (py ''green_gold'') = (py ''#e8f7eb'', py ''#fef6d8'', py ''#14532d'') \<and>
   theme_colors (py ''red_yellow'') = (py ''#fee2e2'', py ''#fef9c3'', py ''#7f1d1d'') \<and>
   theme_colors (py ''yellow_blue'') = (py ''#fef9c3'', py ''#dbeafe'', py ''#1e3a8a'') \<and>
   (theme \<notin> {py ''blue_orange'', py ''green_gold'', py ''red_yellow'', py ''yellow_blue''}
      \<longrightarrow> theme_colors theme = (py ''#e0f2fe'', py ''#ffedd5'', py ''#0f172a''))"
proof -
  have navy: "color_from_name (py ''navy'') (py ''#000000'') = py ''#0f172a''"
    by (simp add: color_from_name_def color_table_def py_Nil py_Cons)
  have unknown: "color_from_name (py ''unknown_color'') (py ''#000000'') = py ''#000000''"
    by (simp add: color_from_name_def color_table_def py_Nil py_Cons)
  have known: "color_from_name name fallback = c" if "(name, c) \<in> set color_table"
    using that color_table_keys_distinct by (simp add: color_from_name_def)
  have other: "color_from_name name fallback = fallback" if "name \<notin> fst ` set color_table"
  proof -
    from that have "map_of color_table name = None"
      by (simp add: map_of_eq_None_iff)
    then show ?thesis by (simp add: color_from_name_def)
  qed
  have t1: "theme_colors (py ''blue_orange'') = (py ''#e0f2fe'', py ''#ffedd5'', py ''#0f172a'')"
    by (simp add: theme_colors_def py_Nil py_Cons)
  have t2: "theme_colors (py ''green_gold'') = (py ''#e8f7eb'', py ''#fef6d8'', py ''#14532d'')"
    by (simp add: theme_colors_def)
  have t3: "theme_colors (py ''red_yellow'') = (py ''#fee2e2'', py ''#fef9c3'', py ''#7f1d1d'')"
    by (simp add: theme_colors_def py_Nil py_Cons)
  have t4: "theme_colors (py ''yellow_blue'') = (py ''#fef9c3'', py ''#dbeafe'', py ''#1e3a8a'')"
    by (simp add: theme_colors_def py_Nil py_Cons)
  have t5: "theme_colors theme = (py ''#e0f2fe'', py ''#ffedd5'', py ''#0f172a'')"
    if "theme \<notin> {py ''blue_orange'', py ''green_gold'', py ''red_yellow'', py ''yellow_blue''}"
    using that by (simp add: theme_colors_def)
  from navy unknown known other t1 t2 t3 t4 t5 show ?thesis by blast
qed

theorem color_resolution_lookup_with_fallback_witness:
  "(py ''gold'', py ''#facc15'') \<in> set color_table \<and>
   color_from_name (py ''gold'') (py ''#123456'') = py ''#facc15'' \<and>
   py ''teal'' \<notin> fst ` set color_table \<and>
   color_from_name (py ''teal'') (py ''#123456'') = py ''#123456'' \<and>
   py ''purple_pink'' \<notin>
     {py ''blue_orange'', py ''green_gold'', py ''red_yellow'', py ''yellow_blue''} \<and>
   theme_colors (py ''purple_pink'') = (py ''#e0f2fe'', py ''#ffedd5'', py ''#0f172a'')"
proof -
  have a: "(py ''gold'', py ''#facc15'') \<in> set color_table"
    by (simp add: color_table_def)
  have b: "py ''teal'' \<notin> fst ` set color_table"
    by (simp add: color_table_def py_Nil py_Cons)
  have c: "py ''purple_pink'' \<notin>
     {py ''blue_orange'', py ''green_gold'', py ''red_yellow'', py ''yellow_blue''}"
    by (simp add: py_Nil py_Cons)
  from a b c
    color_resolution_lookup_with_fallback [of "py ''gold''" "py ''#facc15''" "py ''#123456''"
      "py ''purple_pink''"]
    color_resolution_lookup_with_fallback [of "py ''teal''" "py ''#facc15''" "py ''#123456''"
      "py ''purple_pink''"]
  show ?thesis by blast
qed

section \<open>The returned record\<close>

text \<open>
  C1. Whenever parsing a raw response text succeeds, the returned copy record has a
  \<open>color_theme\<close> that is one of the four known themes, a \<open>bullet_points_ta\<close> that is a
  list of at most three elements, and a \<open>text_colors\<close> that is a record of the three
  roles headline, body and cta, each with a value; this holds whatever object
  \<^verbatim>\<open>json.loads\<close> returned.
\<close>

theorem parsed_copy_wellformed:
  assumes "parse_response loads repr raw = Inr copy"
  shows "(\<exists>t. fmlookup copy (py ''color_theme'') = Some (PStr t) \<and> t \<in> set known_themes) \<and>
         (\<exists>bs. fmlookup copy (py ''bullet_points_ta'') = Some (PList bs) \<and> length bs \<le> 3) \<and>
         (\<exists>h b c. fmlookup copy (py ''text_colors'') =
            Some (PDict (fmap_of_list [(py ''headline'', h), (py ''body'', b), (py ''cta'', c)])))"
proof -
  from assms obtain parsed where n: "normalize_fields repr parsed = Inr copy"
    by (rule parse_response_Inr)
  from n obtain d tc where
    tc: "fmlookup copy (py ''text_colors'') = Some (PDict (fmap_of_list
                    [(py ''headline'', dict_get tc (py ''headline'') (PStr (py ''dark_blue''))),
                     (py ''body'', dict_get tc (py ''body'') (PStr (py ''black''))),
                     (py ''cta'', dict_get tc (py ''cta'') (PStr (py ''red'')))]))"
    and bu: "fmlookup copy (py ''bullet_points_ta'') = Some (PList (take 3
           (case py_or (dict_get d (py ''bullet_points_ta'') PNone) (PList []) of
              PList xs \<Rightarrow> xs | v \<Rightarrow> [PStr (py_str repr v)])))"
    and th: "fmlookup copy (py ''color_theme'') =
           Some (let theme0 = dict_get d (py ''color_theme'') (PStr (py ''blue_orange''))
                 in if theme0 \<notin> set (map PStr known_themes) then PStr (py ''blue_orange'')
                    else theme0)"
    by (rule normalize_fields_InrD)
  have "\<exists>t. fmlookup copy (py ''color_theme'') = Some (PStr t) \<and> t \<in> set known_themes"
    unfolding th by (auto simp add: Let_def known_themes_def)
  moreover have "\<exists>bs. fmlookup copy (py ''bullet_points_ta'') = Some (PList bs) \<and> length bs \<le> 3"
    unfolding bu by simp
  moreover have "\<exists>h b c. fmlookup copy (py ''text_colors'') =
            Some (PDict (fmap_of_list [(py ''headline'', h), (py ''body'', b), (py ''cta'', c)]))"
    unfolding tc by blast
  ultimately show ?thesis by blast
qed

theorem parsed_copy_wellformed_witness:
  "parse_response (loads_table [(sample_text, sample_object)]) (\<lambda>v. []) sample_text =
     Inr sample_copy \<and>
   (\<exists>t. fmlookup sample_copy (py ''color_theme'') = Some (PStr t) \<and> t \<in> set known_themes) \<and>
   (\<exists>bs. fmlookup sample_copy (py ''bullet_points_ta'') = Some (PList bs) \<and> length bs \<le> 3) \<and>
   (\<exists>h b c. fmlookup sample_copy (py ''text_colors'') =
      Some (PDict (fmap_of_list [(py ''headline'', h), (py ''body'', b), (py ''cta'', c)])))"
  using parsed_copy_wellformed [OF parse_sample [of "\<lambda>v. []"]] parse_sample [of "\<lambda>v. []"]
  by blast

section \<open>Failures of parsing\<close>

text \<open>
  C2, as the code has it. The parser fails with EmptyResponse exactly when the raw text
  is empty. It fails with NoJsonFound, carrying the raw text, exactly when the raw text
  is not empty and holds no JSON candidate: so on "no braces here", and also on
  "{invalid", where the brace never closes, the scan finds no candidate and
  \<^verbatim>\<open>json.loads\<close> is not called. InvalidJson, carrying the library's message and the
  candidate, is the failure of every non-empty raw text whose candidate \<^verbatim>\<open>json.loads\<close>
  rejects; "{invalid}" with its closing brace is its own candidate.
\<close>

theorem parse_failures:
  "(parse_response loads repr raw = Inl EmptyResponse \<longleftrightarrow> raw = []) \<and>
   (raw \<noteq> [] \<and> find_json raw = None \<longrightarrow>
      parse_response loads repr raw = Inl (NoJsonFound raw)) \<and>
   (parse_response loads repr raw = Inl (NoJsonFound raw) \<longrightarrow>
      raw \<noteq> [] \<and> find_json raw = None) \<and>
   find_json (py ''no braces here'') = None \<and>
   parse_response loads repr (py ''no braces here'') = Inl (NoJsonFound (py ''no braces here'')) \<and>
   find_json (py ''{invalid'') = None \<and>
   parse_response loads repr (py ''{invalid'') = Inl (NoJsonFound (py ''{invalid'')) \<and>
   (raw \<noteq> [] \<and> find_json raw = Some json_text \<and> loads json_text = Inl e \<longrightarrow>
      parse_response loads repr raw = Inl (InvalidJson e json_text)) \<and>
   find_json (py ''{invalid}'') = Some (py ''{invalid}'')"
proof -
  have empty: "parse_response loads repr raw = Inl EmptyResponse \<longleftrightarrow> raw = []"
    by (auto simp add: parse_response_def exception_distinct normalize_fields_not_EmptyResponse
        split: option.splits sum.splits)
  have nojson: "parse_response loads repr raw = Inl (NoJsonFound raw)"
    if "raw \<noteq> []" "find_json raw = None"
    using that by (simp add: parse_response_def)
  have nojson_only: "raw \<noteq> [] \<and> find_json raw = None"
    if "parse_response loads repr raw = Inl (NoJsonFound raw)"
  proof -
    have "normalize_fields repr parsed \<noteq> Inl (NoJsonFound raw)" for parsed
      by (simp add: NoJsonFound_def normalize_fields_not_ValueError)
    with that show ?thesis
      by (auto simp add: parse_response_def exception_distinct
          split: if_splits option.splits sum.splits dest: find_json_nonempty)
  qed
  have f1: "find_json (py ''no braces here'') = None"
    by (simp add: locate_simps)
  have f2: "find_json (py ''{invalid'') = None"
    by (simp add: locate_simps)
  have nobrace: "parse_response loads repr (py ''no braces here'') =
      Inl (NoJsonFound (py ''no braces here''))"
    by (simp add: parse_response_def locate_simps)
  have invalid: "parse_response loads repr (py ''{invalid'') = Inl (NoJsonFound (py ''{invalid''))"
    by (simp add: parse_response_def locate_simps)
  have cand: "parse_response loads repr raw = Inl (InvalidJson e json_text)"
    if "raw \<noteq> []" "find_json raw = Some json_text" "loads json_text = Inl e"
  proof -
    from that(2) have "json_text \<noteq> []" by (rule find_json_nonempty)
    with that show ?thesis by (simp add: parse_response_def)
  qed
  have closed: "find_json (py ''{invalid}'') = Some (py ''{invalid}'')"
    by (simp add: locate_simps)
  from empty nojson nojson_only f1 f2 nobrace invalid cand closed show ?thesis by blast
qed

theorem parse_failures_witness:
  "py ''{invalid}'' \<noteq> [] \<and> find_json (py ''{invalid}'') = Some (py ''{invalid}'') \<and>
   loads_table [] (py ''{invalid}'') = Inl (py ''Expecting value'') \<and>
   parse_response (loads_table []) (\<lambda>v. []) (py ''{invalid}'') =
     Inl (InvalidJson (py ''Expecting value'') (py ''{invalid}'')) \<and>
   py ''no JSON, sorry'' \<noteq> [] \<and> find_json (py ''no JSON, sorry'') = None \<and>
   parse_response (loads_table []) (\<lambda>v. []) (py ''no JSON, sorry'') =
     Inl (NoJsonFound (py ''no JSON, sorry''))"
proof -
  have a: "py ''{invalid}'' \<noteq> []" "py ''no JSON, sorry'' \<noteq> []"
    by (simp_all add: py_Cons)
  have b: "loads_table [] (py ''{invalid}'') = Inl (py ''Expecting value'')"
    by (simp add: loads_table_def)
  have c: "find_json (py ''no JSON, sorry'') = None"
    by (simp add: locate_simps)
  from a b c
    parse_failures [where loads = "loads_table []" and repr = "\<lambda>v. []"
      and raw = "py ''{invalid}''" and json_text = "py ''{invalid}''"
      and e = "py ''Expecting value''"]
    parse_failures [where loads = "loads_table []" and repr = "\<lambda>v. []"
      and raw = "py ''no JSON, sorry''" and json_text = "py ''{invalid}''"
      and e = "py ''Expecting value''"]
  show ?thesis by blast
qed

text \<open>
  C2 as stated fails: for no \<^verbatim>\<open>json.loads\<close> at all does "{invalid" fail with
  InvalidJson.
\<close>

theorem unclosed_brace_is_not_InvalidJson:
  "\<not> (\<exists>loads repr e json_text.
        parse_response loads repr (py ''{invalid'') = Inl (InvalidJson e json_text))"
proof
  assume "\<exists>loads repr e json_text.
        parse_response loads repr (py ''{invalid'') = Inl (InvalidJson e json_text)"
  then obtain loads :: "pystr \<Rightarrow> pystr + pyval" and repr e json_text
    where "parse_response loads repr (py ''{invalid'') = Inl (InvalidJson e json_text)"
    by blast
  moreover have "parse_response loads repr (py ''{invalid'') = Inl (NoJsonFound (py ''{invalid''))"
    by (simp add: parse_response_def locate_simps)
  ultimately show False by (simp add: exception_distinct)
qed

section \<open>The bullet points\<close>

text \<open>
  C3, as the code has it. In a returned record, \<open>bullet_points_ta\<close> is: the first three
  elements, in order, of a list (a list of at most three elements is kept as it is,
  with no padding; a list of five yields its first three); the one-element list of
  \<^verbatim>\<open>str(v)\<close> for a value \<open>v\<close> that is true and not a list (a non-empty str is wrapped
  as it is); and the empty list when the key is absent or its value is false
  (\<^verbatim>\<open>None\<close>, \<^verbatim>\<open>False\<close>, zero, the empty str, list or dict), by the \<^verbatim>\<open>or []\<close> of line 242.
\<close>

theorem bullets_normalized:
  assumes "normalize_fields repr (PDict d) = Inr d'"
  shows
   "(fmlookup d (py ''bullet_points_ta'') = Some (PList xs) \<longrightarrow>
       fmlookup d' (py ''bullet_points_ta'') = Some (PList (take 3 xs))) \<and>
    (fmlookup d (py ''bullet_points_ta'') = Some (PList xs) \<and> length xs \<le> 3 \<longrightarrow>
       fmlookup d' (py ''bullet_points_ta'') = Some (PList xs)) \<and>
    (fmlookup d (py ''bullet_points_ta'') = Some (PList [b1, b2, b3, b4, b5]) \<longrightarrow>
       fmlookup d' (py ''bullet_points_ta'') = Some (PList [b1, b2, b3])) \<and>
    (fmlookup d (py ''bullet_points_ta'') = Some v \<and> truthy v \<and> (\<forall>ys. v \<noteq> PList ys) \<longrightarrow>
       fmlookup d' (py ''bullet_points_ta'') = Some (PList [PStr (py_str repr v)])) \<and>
    (fmlookup d (py ''bullet_points_ta'') = Some (PStr s) \<and> s \<noteq> [] \<longrightarrow>
       fmlookup d' (py ''bullet_points_ta'') = Some (PList [PStr s])) \<and>
    (fmlookup d (py ''bullet_points_ta'') = None \<or>
     fmlookup d (py ''bullet_points_ta'') = Some v \<and> \<not> truthy v \<longrightarrow>
       fmlookup d' (py ''bullet_points_ta'') = Some (PList []))"
proof -
  note b = bullets_of_record [OF assms]
  have lst: "fmlookup d' (py ''bullet_points_ta'') = Some (PList (take 3 xs))"
    if "fmlookup d (py ''bullet_points_ta'') = Some (PList xs)" for xs
    using b that by (cases xs) (simp_all add: dict_get_def py_or_def)
  have wrap: "fmlookup d' (py ''bullet_points_ta'') = Some (PList [PStr (py_str repr v)])"
    if "fmlookup d (py ''bullet_points_ta'') = Some v" "truthy v" "\<forall>ys. v \<noteq> PList ys" for v
    using b that by (cases v) (simp_all add: dict_get_def py_or_def)
  have none: "fmlookup d' (py ''bullet_points_ta'') = Some (PList [])"
    if "fmlookup d (py ''bullet_points_ta'') = None \<or>
        fmlookup d (py ''bullet_points_ta'') = Some v \<and> \<not> truthy v"
    using b that by (auto simp add: dict_get_def py_or_def)
  have wrap_str: "fmlookup d' (py ''bullet_points_ta'') = Some (PList [PStr s])"
    if "fmlookup d (py ''bullet_points_ta'') = Some (PStr s)" "s \<noteq> []"
    using wrap [OF that(1)] that(2) by (simp add: py_str_def)
  from lst [of xs] lst [of "[b1, b2, b3, b4, b5]"] wrap [of v] wrap_str none
  show ?thesis by simp
qed

theorem bullets_normalized_witness:
  "\<exists>d'. normalize_fields (\<lambda>v. []) (PDict five_bullets) = Inr d' \<and>
     fmlookup five_bullets (py ''bullet_points_ta'') =
       Some (PList [PStr (py ''A''), PStr (py ''B''), PStr (py ''C''), PStr (py ''D''),
         PStr (py ''E'')]) \<and>
     fmlookup d' (py ''bullet_points_ta'') =
       Some (PList [PStr (py ''A''), PStr (py ''B''), PStr (py ''C'')])"
proof -
  have "py_or (dict_get five_bullets (py ''text_colors'') PNone) (PDict fmempty) = PDict fmempty"
    by (simp add: five_bullets_def dict_get_def py_or_def py_Nil py_Cons)
  then obtain d' where n: "normalize_fields (\<lambda>v. []) (PDict five_bullets) = Inr d'"
    using normalize_fields_returns by blast
  have l: "fmlookup five_bullets (py ''bullet_points_ta'') =
       Some (PList [PStr (py ''A''), PStr (py ''B''), PStr (py ''C''), PStr (py ''D''),
         PStr (py ''E'')])"
    by (simp add: five_bullets_def py_Nil py_Cons)
  from bullets_normalized [OF n] n l show ?thesis by blast
qed

text \<open>
  C3 as stated fails: the number zero is not a list, and normalization returns the empty
  list for it, not a one-element list, whatever \<^verbatim>\<open>repr\<close> is.
\<close>

theorem falsy_bullets_are_not_wrapped:
  "(\<exists>d'. normalize_fields (\<lambda>v. py ''0'') (PDict zero_bullets) = Inr d' \<and>
      fmlookup d' (py ''bullet_points_ta'') = Some (PList [])) \<and>
   \<not> (\<exists>repr d' x. normalize_fields repr (PDict zero_bullets) = Inr d' \<and>
         fmlookup d' (py ''bullet_points_ta'') = Some (PList [x]))"
proof
  have e: "fmlookup d' (py ''bullet_points_ta'') = Some (PList [])"
    if "normalize_fields repr (PDict zero_bullets) = Inr d'" for repr d'
    using bullets_of_record [OF that] by (simp add: zero_bullets_def dict_get_def py_or_def)
  have "py_or (dict_get zero_bullets (py ''text_colors'') PNone) (PDict fmempty) = PDict fmempty"
    by (simp add: zero_bullets_def dict_get_def py_or_def py_Nil py_Cons)
  then obtain d' where "normalize_fields (\<lambda>v. py ''0'') (PDict zero_bullets) = Inr d'"
    using normalize_fields_returns by blast
  with e show "\<exists>d'. normalize_fields (\<lambda>v. py ''0'') (PDict zero_bullets) = Inr d' \<and>
      fmlookup d' (py ''bullet_points_ta'') = Some (PList [])"
    by blast
  show "\<not> (\<exists>repr d' x. normalize_fields repr (PDict zero_bullets) = Inr d' \<and>
         fmlookup d' (py ''bullet_points_ta'') = Some (PList [x]))"
    using e by fastforce
qed

section \<open>Defaults\<close>




section \<open>Fenced and unfenced responses\<close>

text \<open>
  C5, as the code has it. Let \<open>s\<close> be a text without backticks that the brace scan
  returns whole: it starts with an opening brace, and its last character is the brace
  that closes the first one when every brace of \<open>s\<close> is counted, those inside JSON
  strings too. Then a response holding \<open>s\<close> in a fenced code block, in any spelling of
  the fence that the pattern accepts (with or without the word json, in any letter
  case, with any whitespace around \<open>s\<close>), after any text without backticks and before
  any text, and a response holding \<open>s\<close> unfenced (after text with no brace, and with
  no backtick around it) both have \<open>s\<close> as their candidate, so parsing them gives the
  same result: the same record when \<^verbatim>\<open>json.loads\<close> accepts \<open>s\<close> and normalization
  returns, and the same failure otherwise.
\<close>

theorem fenced_and_unfenced_agree:
  assumes "brace_scan s = Some s" and "96 \<notin> set s"
    and "fence_word word" and "list_all uni_space lead" and "list_all uni_space trail"
    and "96 \<notin> set fpre"
    and "96 \<notin> set pre" and "123 \<notin> set pre" and "96 \<notin> set post"
  shows "find_json (fpre @ fenced_with word lead s trail @ fpost) = Some s \<and>
         find_json (pre @ s @ post) = Some s \<and>
         parse_response loads repr (fpre @ fenced_with word lead s trail @ fpost) =
           parse_response loads repr (pre @ s @ post) \<and>
         parse_response loads repr (fpre @ fenced_block s @ fpost) =
           parse_response loads repr (pre @ s @ post) \<and>
         (loads s = Inr parsed \<and> normalize_fields repr parsed = Inr copy \<longrightarrow>
            parse_response loads repr (fpre @ fenced_with word lead s trail @ fpost) = Inr copy \<and>
            parse_response loads repr (fpre @ fenced_block s @ fpost) = Inr copy \<and>
            parse_response loads repr (pre @ s @ post) = Inr copy)"
proof -
  from assms(1) obtain body where s: "s = 123 # body" "scan_braces 0 s = Some s" "last s = 125"
    by (rule brace_scan_whole)
  have fw: "find_json (fpre @ fenced_with w a s b @ fpost) = Some s"
    if "fence_word w" "list_all uni_space a" "list_all uni_space b" for w a b
    using fence_search_skip [OF assms(6)] fence_search_fenced [OF s(1) s(3) assms(2) that]
    by (simp add: find_json_def)
  have f: "find_json (fpre @ fenced_with word lead s trail @ fpost) = Some s"
    using assms(3,4,5) by (rule fw)
  have "fence_word (py ''json'')"
    by (simp add: fence_word_def after_json_word_def py_Nil py_Cons)
  then have fb: "find_json (fpre @ fenced_block s @ fpost) = Some s"
    unfolding fenced_block_spelling by (rule fw) (simp_all add: uni_space_def)
  have "fence_search (pre @ s @ post) = None"
    using assms by (intro fence_search_no_backtick) simp
  moreover have "dropWhile (\<lambda>c. c \<noteq> 123) (pre @ s @ post) = s @ post"
  proof -
    have "dropWhile (\<lambda>c. c \<noteq> 123) (pre @ s @ post) = dropWhile (\<lambda>c. c \<noteq> 123) (s @ post)"
      using assms(8) by (intro dropWhile_append2) auto
    then show ?thesis using s(1) by simp
  qed
  ultimately have u: "find_json (pre @ s @ post) = Some s"
    using scan_braces_append [OF s(2)] by (simp add: find_json_def brace_scan_def)
  have p: "parse_response loads repr raw =
      (case loads s of Inl e \<Rightarrow> Inl (InvalidJson e s) | Inr parsed \<Rightarrow> normalize_fields repr parsed)"
    if "find_json raw = Some s" "raw \<noteq> []" for raw
  proof -
    have "s \<noteq> []" using s(1) by simp
    with that show ?thesis by (simp add: parse_response_def)
  qed
  have p1: "parse_response loads repr (fpre @ fenced_with word lead s trail @ fpost) =
      (case loads s of Inl e \<Rightarrow> Inl (InvalidJson e s) | Inr parsed \<Rightarrow> normalize_fields repr parsed)"
    by (rule p [OF f]) (simp add: fenced_with_def fence_def)
  have p2: "parse_response loads repr (pre @ s @ post) =
      (case loads s of Inl e \<Rightarrow> Inl (InvalidJson e s) | Inr parsed \<Rightarrow> normalize_fields repr parsed)"
    by (rule p [OF u]) (simp add: s(1))
  have p3: "parse_response loads repr (fpre @ fenced_block s @ fpost) =
      (case loads s of Inl e \<Rightarrow> Inl (InvalidJson e s) | Inr parsed \<Rightarrow> normalize_fields repr parsed)"
    by (rule p [OF fb]) (simp add: fenced_block_def fence_def)
  from f u p1 p2 p3 show ?thesis by simp
qed

text \<open>
  An instance: a plain fence without the word, the text on the line of the fence, a
  carriage return and a line feed before the closing fence, text with a brace before
  the block, against the same text unfenced.
\<close>

theorem fenced_and_unfenced_agree_witness:
  "brace_scan sample_text = Some sample_text \<and> 96 \<notin> set sample_text \<and>
   fence_word [] \<and> fence_word (py ''JSON'') \<and> list_all uni_space [] \<and>
   list_all uni_space [13, 10] \<and>
   96 \<notin> set (py ''{x} '') \<and> 96 \<notin> set (py ''Here it is: '') \<and>
   123 \<notin> set (py ''Here it is: '') \<and> 96 \<notin> set (py '' Done.'') \<and>
   parse_response (loads_table [(sample_text, sample_object)]) (\<lambda>v. [])
     (py ''{x} '' @ fenced_with [] [] sample_text [13, 10] @ py '' Done.'') = Inr sample_copy \<and>
   parse_response (loads_table [(sample_text, sample_object)]) (\<lambda>v. [])
     (py ''{x} '' @ fenced_with (py ''JSON'') [13, 10] sample_text [] @ py '' Done.'') =
       Inr sample_copy \<and>
   parse_response (loads_table [(sample_text, sample_object)]) (\<lambda>v. [])
     (py ''{x} '' @ fenced_block sample_text @ py '' Done.'') = Inr sample_copy \<and>
   parse_response (loads_table [(sample_text, sample_object)]) (\<lambda>v. [])
     (py ''Here it is: '' @ sample_text @ py '' Done.'') = Inr sample_copy"
proof -
  have a: "brace_scan sample_text = Some sample_text"
    by (simp add: sample_text_def brace_scan_def py_Nil py_Cons)
  have b: "96 \<notin> set sample_text"
    by (simp add: sample_text_def py_Nil py_Cons)
  have c: "96 \<notin> set (py ''{x} '')" "96 \<notin> set (py ''Here it is: '')"
    "123 \<notin> set (py ''Here it is: '')" "96 \<notin> set (py '' Done.'')"
    by (simp_all add: py_Nil py_Cons)
  have w: "fence_word []" "fence_word (py ''JSON'')"
    by (simp_all add: fence_word_def after_json_word_def py_Nil py_Cons)
  have sp: "list_all uni_space []" "list_all uni_space [13, 10]"
    by (simp_all add: uni_space_def)
  have l: "loads_table [(sample_text, sample_object)] sample_text = Inr sample_object"
    by (simp add: loads_table_def)
  from fenced_and_unfenced_agree [where s = sample_text and word = "[]" and lead = "[]"
      and trail = "[13, 10]" and fpre = "py ''{x} ''"
      and pre = "py ''Here it is: ''" and post = "py '' Done.''" and fpost = "py '' Done.''"
      and loads = "loads_table [(sample_text, sample_object)]" and parsed = sample_object
      and repr = "\<lambda>v. []" and copy = sample_copy, OF a b w(1) sp(1) sp(2) c(1) c(2) c(3) c(4)]
    fenced_and_unfenced_agree [where s = sample_text and word = "py ''JSON''" and lead = "[13, 10]"
      and trail = "[]" and fpre = "py ''{x} ''"
      and pre = "py ''Here it is: ''" and post = "py '' Done.''" and fpost = "py '' Done.''"
      and loads = "loads_table [(sample_text, sample_object)]" and parsed = sample_object
      and repr = "\<lambda>v. []" and copy = sample_copy, OF a b w(2) sp(2) sp(1) c(1) c(2) c(3) c(4)]
    l normalize_sample [of "\<lambda>v. []"] a b c w sp
  show ?thesis by blast
qed

text \<open>
  C5 as stated fails for a JSON object with a brace inside a string: fenced, the text
  \<^verbatim>\<open>{"headline_ta": "{"}\<close> is found by the pattern and parsed; unfenced, the scan
  counts the brace of the string, the depth never returns to zero, and parsing fails with
  NoJsonFound.
\<close>

theorem brace_in_string_breaks_agreement:
  "(\<exists>copy. parse_response (loads_table [(brace_text, brace_object)]) (\<lambda>v. [])
      (fenced_block brace_text) = Inr copy) \<and>
   parse_response (loads_table [(brace_text, brace_object)]) (\<lambda>v. []) brace_text =
     Inl (NoJsonFound brace_text)"
proof
  have f: "find_json (fenced_block brace_text) = Some brace_text"
    by (simp add: fenced_block_def brace_text_def locate_simps)
  have ne: "fenced_block brace_text \<noteq> []" "brace_text \<noteq> []"
    by (simp_all add: fenced_block_def fence_def brace_text_def py_Cons)
  have "py_or (dict_get (fmap_of_list [(py ''headline_ta'', PStr (py ''{''))]) (py ''text_colors'') PNone)
      (PDict fmempty) = PDict fmempty"
    by (simp add: dict_get_def py_or_def py_Nil py_Cons)
  then obtain copy where "normalize_fields (\<lambda>v. []) brace_object = Inr copy"
    unfolding brace_object_def using normalize_fields_returns by blast
  with f ne show "\<exists>copy. parse_response (loads_table [(brace_text, brace_object)]) (\<lambda>v. [])
      (fenced_block brace_text) = Inr copy"
    by (simp add: parse_response_def loads_table_def)
  have u: "find_json brace_text = None"
    by (simp add: brace_text_def locate_simps)
  with ne show "parse_response (loads_table [(brace_text, brace_object)]) (\<lambda>v. []) brace_text =
     Inl (NoJsonFound brace_text)"
    by (simp add: parse_response_def)
qed

section \<open>Idempotence\<close>

text \<open>
  C6. Normalizing a copy record that is already normalized (its \<open>bullet_points_ta\<close> a
  list of three elements, its \<open>color_theme\<close> one of the four known themes, its
  \<open>text_colors\<close> the record of the three roles) returns the same record; and so does
  normalizing any record that normalization itself returned.
\<close>

theorem normalize_idempotent:
  "(fmlookup d (py ''color_theme'') = Some (PStr t) \<and> t \<in> set known_themes \<and>
    fmlookup d (py ''bullet_points_ta'') = Some (PList bs) \<and> length bs = 3 \<and>
    fmlookup d (py ''text_colors'') = Some (PDict tc) \<and>
    fmdom tc = {|py ''headline'', py ''body'', py ''cta''|}
      \<longrightarrow> normalize_fields repr (PDict d) = Inr d) \<and>
   (normalize_fields repr parsed = Inr d' \<longrightarrow> normalize_fields repr (PDict d') = Inr d')"
proof (intro conjI impI)
  assume "fmlookup d (py ''color_theme'') = Some (PStr t) \<and> t \<in> set known_themes \<and>
    fmlookup d (py ''bullet_points_ta'') = Some (PList bs) \<and> length bs = 3 \<and>
    fmlookup d (py ''text_colors'') = Some (PDict tc) \<and>
    fmdom tc = {|py ''headline'', py ''body'', py ''cta''|}"
  then show "normalize_fields repr (PDict d) = Inr d"
    by (intro normalize_fixed_point [of d t bs tc]) simp_all
next
  assume n: "normalize_fields repr parsed = Inr d'"
  from n obtain d0 tc0 where
    tc: "fmlookup d' (py ''text_colors'') = Some (PDict (fmap_of_list
                    [(py ''headline'', dict_get tc0 (py ''headline'') (PStr (py ''dark_blue''))),
                     (py ''body'', dict_get tc0 (py ''body'') (PStr (py ''black''))),
                     (py ''cta'', dict_get tc0 (py ''cta'') (PStr (py ''red'')))]))"
    and bu: "fmlookup d' (py ''bullet_points_ta'') = Some (PList (take 3
           (case py_or (dict_get d0 (py ''bullet_points_ta'') PNone) (PList []) of
              PList xs \<Rightarrow> xs | v \<Rightarrow> [PStr (py_str repr v)])))"
    and th: "fmlookup d' (py ''color_theme'') =
           Some (let theme0 = dict_get d0 (py ''color_theme'') (PStr (py ''blue_orange''))
                 in if theme0 \<notin> set (map PStr known_themes) then PStr (py ''blue_orange'')
                    else theme0)"
    by (rule normalize_fields_InrD)
  from th obtain t where t: "fmlookup d' (py ''color_theme'') = Some (PStr t)" "t \<in> set known_themes"
    by (auto simp add: Let_def known_themes_def split: if_splits)
  show "normalize_fields repr (PDict d') = Inr d'"
    by (rule normalize_fixed_point [OF t bu _ tc]) simp_all
qed

theorem normalize_idempotent_witness:
  "fmlookup normalized_copy (py ''color_theme'') = Some (PStr (py ''green_gold'')) \<and>
   py ''green_gold'' \<in> set known_themes \<and>
   fmlookup normalized_copy (py ''bullet_points_ta'') =
     Some (PList [PStr (py ''A''), PStr (py ''B''), PStr (py ''C'')]) \<and>
   normalize_fields (\<lambda>v. []) (PDict normalized_copy) = Inr normalized_copy \<and>
   normalize_fields (\<lambda>v. []) sample_object = Inr sample_copy \<and>
   normalize_fields (\<lambda>v. []) (PDict sample_copy) = Inr sample_copy"
proof -
  have a: "fmlookup normalized_copy (py ''color_theme'') = Some (PStr (py ''green_gold''))"
    by (simp add: normalized_copy_def py_Nil py_Cons)
  have b: "py ''green_gold'' \<in> set known_themes"
    by (simp add: known_themes_def)
  have c: "fmlookup normalized_copy (py ''bullet_points_ta'') =
     Some (PList [PStr (py ''A''), PStr (py ''B''), PStr (py ''C'')])"
    by (simp add: normalized_copy_def py_Nil py_Cons)
  have d: "fmlookup normalized_copy (py ''text_colors'') = Some (PDict (fmap_of_list
         [(py ''headline'', PStr (py ''dark_green'')), (py ''body'', PStr (py ''black'')),
          (py ''cta'', PStr (py ''green''))]))"
    by (simp add: normalized_copy_def py_Nil py_Cons)
  have e: "fmdom (fmap_of_list
         [(py ''headline'', PStr (py ''dark_green'')), (py ''body'', PStr (py ''black'')),
          (py ''cta'', PStr (py ''green''))]) = {|py ''headline'', py ''body'', py ''cta''|}"
    by simp
  have f: "length [PStr (py ''A''), PStr (py ''B''), PStr (py ''C'')] = 3"
    by simp
  from normalize_idempotent [of normalized_copy "py ''green_gold''"
      "[PStr (py ''A''), PStr (py ''B''), PStr (py ''C'')]"
      "fmap_of_list
         [(py ''headline'', PStr (py ''dark_green'')), (py ''body'', PStr (py ''black'')),
          (py ''cta'', PStr (py ''green''))]" "\<lambda>v. []" sample_object sample_copy]
    a b c d e f normalize_sample [of "\<lambda>v. []"]
  show ?thesis by blast
qed

section \<open>The style block of the prompt\<close>

text \<open>
  C7. For every style mode string, recognized or not, the three style blocks taken
  together occur at exactly one place of the built prompt, and the block that occurs is
  the one \<open>build_style_block\<close> chose: the conversation block for the mode
  "Conversation", the fact-based block for "Fact-based awareness", both by exact
  comparison, and the block of the standard marketing style for every other mode.
\<close>

theorem exactly_one_style_block:
  "occurrences style_conversation (build_prompt style_mode) +
   occurrences style_fact_based (build_prompt style_mode) +
   occurrences style_standard (build_prompt style_mode) = 1 \<and>
   occurrences (build_style_block style_mode) (build_prompt style_mode) = 1 \<and>
   (style_mode = py ''Conversation'' \<longrightarrow> build_style_block style_mode = style_conversation) \<and>
   (style_mode = py ''Fact-based awareness'' \<longrightarrow>
      build_style_block style_mode = style_fact_based) \<and>
   (style_mode \<noteq> py ''Conversation'' \<and> style_mode \<noteq> py ''Fact-based awareness'' \<longrightarrow>
      build_style_block style_mode = style_standard)"
proof -
  have choice: "build_style_block style_mode = style_conversation \<or>
      build_style_block style_mode = style_fact_based \<or>
      build_style_block style_mode = style_standard"
    by (simp add: build_style_block_def)
  have counts: "occurrences style_conversation (build_prompt style_mode) +
      occurrences style_fact_based (build_prompt style_mode) +
      occurrences style_standard (build_prompt style_mode) = 1 \<and>
      occurrences (build_style_block style_mode) (build_prompt style_mode) = 1"
    using choice
      blocks_in_prompt [OF pair_in_conversation blocks_nonempty(1)]
      blocks_in_prompt [OF pair_in_fact_based blocks_nonempty(2)]
      blocks_in_prompt [OF pair_in_standard blocks_nonempty(3)]
    unfolding build_prompt_def by auto
  have "py ''Fact-based awareness'' \<noteq> py ''Conversation''"
    by (simp add: py_Nil py_Cons)
  then have "(style_mode = py ''Conversation'' \<longrightarrow> build_style_block style_mode = style_conversation) \<and>
   (style_mode = py ''Fact-based awareness'' \<longrightarrow>
      build_style_block style_mode = style_fact_based) \<and>
   (style_mode \<noteq> py ''Conversation'' \<and> style_mode \<noteq> py ''Fact-based awareness'' \<longrightarrow>
      build_style_block style_mode = style_standard)"
    by (simp add: build_style_block_def)
  with counts show ?thesis by simp
qed

theorem exactly_one_style_block_witness:
  "py ''conversation'' \<noteq> py ''Conversation'' \<and>
   py ''conversation'' \<noteq> py ''Fact-based awareness'' \<and>
   build_style_block (py ''conversation'') = style_standard \<and>
   occurrences style_standard (build_prompt (py ''conversation'')) = 1 \<and>
   occurrences style_conversation (build_prompt (py ''conversation'')) = 0 \<and>
   occurrences style_fact_based (build_prompt (py ''conversation'')) = 0 \<and>
   build_style_block (py ''Conversation'') = style_conversation \<and>
   occurrences style_conversation (build_prompt (py ''Conversation'')) = 1"
proof -
  have a: "py ''conversation'' \<noteq> py ''Conversation''"
    "py ''conversation'' \<noteq> py ''Fact-based awareness''"
    by (simp_all add: py_Nil py_Cons)
  from exactly_one_style_block [of "py ''conversation''"]
    exactly_one_style_block [of "py ''Conversation''"] a
  show ?thesis by auto
qed

section \<open>The data URL of the photo\<close>

text \<open>
  C9. For every sequence of bytes of the uploaded photo, the data URL is the fixed
  prefix \<^verbatim>\<open>data:image/png;base64,\<close> followed by the base64 encoding of the bytes: the
  22 characters of the prefix do not depend on the bytes, what follows them decodes to
  exactly the bytes, and so two photos have the same data URL only when their bytes are
  the same. The first three bytes of a JPEG file are declared as image/png like any
  others.
\<close>

theorem photo_data_url_is_base64_png:
  "photo_data_url bs = py ''data:image/png;base64,'' @ b64encode bs \<and>
   take 22 (photo_data_url bs) = py ''data:image/png;base64,'' \<and>
   b64decode (drop 22 (photo_data_url bs)) = Some bs \<and>
   (photo_data_url bs = photo_data_url bs' \<longleftrightarrow> bs = bs') \<and>
   photo_data_url [0xFF, 0xD8, 0xFF] = py ''data:image/png;base64,/9j/''"
proof -
  have len: "length (py ''data:image/png;base64,'') = 22"
    by (simp add: py_def)
  have tk: "take 22 (photo_data_url bs) = py ''data:image/png;base64,''"
    using len by (simp add: photo_data_url_def)
  have dr: "drop 22 (photo_data_url bs) = b64encode bs" for bs
    using len by (simp add: photo_data_url_def)
  have inj: "bs = bs'" if "photo_data_url bs = photo_data_url bs'"
  proof -
    from that have "b64encode bs = b64encode bs'" by (simp add: photo_data_url_def)
    then have "b64decode (b64encode bs) = b64decode (b64encode bs')" by simp
    then show ?thesis by (simp add: b64_roundtrip)
  qed
  have jpeg: "photo_data_url [0xFF, 0xD8, 0xFF] = py ''data:image/png;base64,/9j/''"
    by (simp add: photo_data_url_def b64_char_def py_Nil py_Cons)
  from tk dr [of bs] inj jpeg show ?thesis
    by (auto simp add: photo_data_url_def b64_roundtrip)
qed

section \<open>The other keys\<close>

text \<open>
  C10. Normalization rewrites only the keys \<open>color_theme\<close>, \<open>bullet_points_ta\<close> and
  \<open>text_colors\<close>: in the returned record every other key, such as \<open>headline_ta\<close>,
  \<open>subheadline_ta\<close>, \<open>body_paragraph_ta\<close> and \<open>cta_line_ta\<close>, is looked up as in the
  parsed object (present with the same value, or absent as before), and the keys of the
  record are those of the parsed object and these three.
\<close>

theorem normalization_frame:
  assumes "normalize_fields repr (PDict d) = Inr d'"
  shows "(k \<noteq> py ''color_theme'' \<and> k \<noteq> py ''bullet_points_ta'' \<and> k \<noteq> py ''text_colors'' \<longrightarrow>
           fmlookup d' k = fmlookup d k) \<and>
         fmlookup d' (py ''headline_ta'') = fmlookup d (py ''headline_ta'') \<and>
         fmlookup d' (py ''subheadline_ta'') = fmlookup d (py ''subheadline_ta'') \<and>
         fmlookup d' (py ''body_paragraph_ta'') = fmlookup d (py ''body_paragraph_ta'') \<and>
         fmlookup d' (py ''cta_line_ta'') = fmlookup d (py ''cta_line_ta'') \<and>
         fmdom d' = fmdom d |\<union>| {|py ''color_theme'', py ''bullet_points_ta'', py ''text_colors''|}"
proof -
  have frame: "fmlookup d' k = fmlookup d k"
    if "k \<noteq> py ''color_theme''" "k \<noteq> py ''bullet_points_ta''" "k \<noteq> py ''text_colors''" for k
    using assms that by (auto simp add: normalize_fields_def Let_def split: pyval.splits)
  have dom: "fmdom d' = fmdom d |\<union>| {|py ''color_theme'', py ''bullet_points_ta'', py ''text_colors''|}"
    using normalize_fields_form [OF assms] by auto
  have "fmlookup d' (py ''headline_ta'') = fmlookup d (py ''headline_ta'')"
    by (rule frame) (simp_all add: py_Nil py_Cons)
  moreover have "fmlookup d' (py ''subheadline_ta'') = fmlookup d (py ''subheadline_ta'')"
    by (rule frame) (simp_all add: py_Nil py_Cons)
  moreover have "fmlookup d' (py ''body_paragraph_ta'') = fmlookup d (py ''body_paragraph_ta'')"
    by (rule frame) (simp_all add: py_Nil py_Cons)
  moreover have "fmlookup d' (py ''cta_line_ta'') = fmlookup d (py ''cta_line_ta'')"
    by (rule frame) (simp_all add: py_Nil py_Cons)
  ultimately show ?thesis using frame [of k] dom by blast
qed

theorem normalization_frame_witness:
  "\<exists>d'. normalize_fields (\<lambda>v. []) (PDict purple_pink) = Inr d' \<and>
     fmlookup d' (py ''headline_ta'') = Some (PStr (py ''X'')) \<and>
     fmlookup d' (py ''cta_line_ta'') = None \<and>
     fmdom d' = {|py ''headline_ta'', py ''color_theme'', py ''bullet_points_ta'', py ''text_colors''|}"
proof -
  have "py_or (dict_get purple_pink (py ''text_colors'') PNone) (PDict fmempty) = PDict fmempty"
    by (simp add: purple_pink_def dict_get_def py_or_def py_Nil py_Cons)
  then obtain d' where n: "normalize_fields (\<lambda>v. []) (PDict purple_pink) = Inr d'"
    using normalize_fields_returns by blast
  have a: "fmlookup purple_pink (py ''headline_ta'') = Some (PStr (py ''X''))"
    by (simp add: purple_pink_def)
  have b: "fmlookup purple_pink (py ''cta_line_ta'') = None"
    by (simp add: purple_pink_def py_Nil py_Cons)
  have c: "fmdom purple_pink = {|py ''headline_ta'', py ''color_theme''|}"
    by (simp add: purple_pink_def)
  from normalization_frame [OF n, of "py ''headline_ta''"] a b c n show ?thesis
    by auto
qed
end
